theory Spec2Isabelle
  imports Complex_Main
begin

section \<open>Python strings and exceptions\<close>

text \<open>
  A Python \<open>str\<close> is a sequence of Unicode code points. The escaper of \<open>rs_lisp.py\<close>
  uses the code points U+FF00, U+FF01 and U+FF02, which do not fit a byte, so a string is
  a list of code points here and not a \<open>char list\<close>. \<open>ascii\<close> writes an ASCII literal.
\<close>

type_synonym pychar = nat
type_synonym pystr = "pychar list"

definition ascii :: "string \<Rightarrow> pystr" where
  "ascii s = map of_char s"

text \<open>
  The exceptions the modelled code raises: \<open>CustomCommandSyntaxError\<close> of \<open>rs_errors\<close>
  (a module that is not among the sources; it is taken to be a plain \<open>Exception\<close>
  subclass, so that \<open>str(e)\<close> is the message it was built with) and the interpreter's own
  errors. An exception is its class and its message.
\<close>

datatype kind =
  CustomCommandSyntaxError | IndexError | TypeError | ValueError | AttributeError

datatype exc = Exc kind pystr

fun exc_kind :: "exc \<Rightarrow> kind" where
  "exc_kind (Exc k m) = k"

fun exc_str :: "exc \<Rightarrow> pystr" where
  "exc_str (Exc k m) = m"

text \<open>
  \<open>str.replace(old, new)\<close>: the occurrences of \<open>old\<close> are replaced from the left and
  do not overlap; an empty \<open>old\<close> puts \<open>new\<close> before every character and at the end.
\<close>

function str_replace_scan :: "pystr \<Rightarrow> pystr \<Rightarrow> pystr \<Rightarrow> pystr" where
  "str_replace_scan old new [] = []"
| "str_replace_scan old new (c # cs) =
     (if old \<noteq> [] \<and> take (length old) (c # cs) = old
      then new @ str_replace_scan old new (drop (length old) (c # cs))
      else c # str_replace_scan old new cs)"
  by pat_completeness auto
termination
  by (relation "measure (\<lambda>(old, new, s). length s)") auto

definition str_replace :: "pystr \<Rightarrow> pystr \<Rightarrow> pystr \<Rightarrow> pystr" where
  "str_replace old new s =
     (if old = [] then new @ concat (map (\<lambda>c. c # new) s) else str_replace_scan old new s)"

text \<open>
  \<open>str.maketrans(x, y)\<close> builds the dictionary from \<open>x[i]\<close> to \<open>y[i]\<close> (a later
  entry for the same character overwrites an earlier one) and raises \<open>ValueError\<close> when
  the lengths differ; \<open>str.translate\<close> maps every character through it and keeps a
  character that has no entry.
\<close>

definition maketrans :: "pystr \<Rightarrow> pystr \<Rightarrow> exc + (pychar \<rightharpoonup> pychar)" where
  "maketrans x y =
     (if length x \<noteq> length y
      then Inl (Exc ValueError (ascii ''the first two maketrans arguments must have equal length''))
      else Inr (foldl (\<lambda>m (a, b). m(a \<mapsto> b)) Map.empty (zip x y)))"

definition translate :: "(pychar \<rightharpoonup> pychar) \<Rightarrow> pystr \<Rightarrow> pystr" where
  "translate m s = map (\<lambda>c. case m c of None \<Rightarrow> c | Some d \<Rightarrow> d) s"

section \<open>The escaper\<close>

text \<open>
  \<open>escapes\<close> of \<open>rs_lisp.py\<close>: the two-character escape sequence (backslash backslash,
  backslash quote, backslash n), its placeholder, and the character the sequence stands
  for (backslash, quote, newline).
\<close>

definition escapes :: "(pystr \<times> pystr \<times> pystr) list" where
  "escapes = [([92, 92], [0xFF00], [92]), ([92, 34], [0xFF01], [34]), ([92, 110], [0xFF02], [10])]"

definition l_escape :: "pystr \<Rightarrow> pystr" where
  "l_escape string = foldl (\<lambda>s (p, r, _). str_replace p r s) string escapes"

definition l_restore :: "pystr \<Rightarrow> pystr" where
  "l_restore string = foldl (\<lambda>s (_, p, r). str_replace p r s) string escapes"




text \<open>
  What the escape sequences of a text stand for, in the words of the specification: the
  text is read from the left, and each of the sequences backslash backslash, backslash
  quote and backslash n counts as the one character backslash, quote or newline.
\<close>

fun spec_unescape :: "pystr \<Rightarrow> pystr" where
  "spec_unescape [] = []"
| "spec_unescape [c] = [c]"
| "spec_unescape (c # d # cs) =
     (if c = 92 \<and> d = 92 then 92 # spec_unescape cs
      else if c = 92 \<and> d = 34 then 34 # spec_unescape cs
      else if c = 92 \<and> d = 110 then 10 # spec_unescape cs
      else c # spec_unescape (d # cs))"

section \<open>The tokenizer\<close>

text \<open>
  \<open>re.findall\<close> with the pattern of \<open>tokenize\<close>, under \<open>re.DOTALL\<close>: at each position
  the alternatives are tried in order: a quote up to the nearest later quote, an opening
  parenthesis, a closing parenthesis, a longest run of characters other than the
  parentheses, the quote and the space. Where none matches (a space, or a quote with no
  later quote) the scan moves on by one character.
\<close>

definition bare :: "pychar \<Rightarrow> bool" where
  "bare c = (c \<noteq> 40 \<and> c \<noteq> 41 \<and> c \<noteq> 34 \<and> c \<noteq> 32)"

function findall_tokens :: "pystr \<Rightarrow> pystr list" where
  "findall_tokens [] = []"
| "findall_tokens (c # cs) =
     (if c = 34 then
        (if 34 \<in> set cs
         then (c # takeWhile (\<lambda>d. d \<noteq> 34) cs @ [34])
                # findall_tokens (tl (dropWhile (\<lambda>d. d \<noteq> 34) cs))
         else findall_tokens cs)
      else if c = 40 \<or> c = 41 then [c] # findall_tokens cs
      else if c = 32 then findall_tokens cs
      else (c # takeWhile bare cs) # findall_tokens (dropWhile bare cs))"
  by pat_completeness auto
termination
proof (relation "measure length")
  fix c :: pychar and cs :: pystr
  have "length (tl (dropWhile (\<lambda>d. d \<noteq> 34) cs)) \<le> length cs"
    using length_dropWhile_le [of "\<lambda>d. d \<noteq> 34" cs] by simp
  then show "(tl (dropWhile (\<lambda>d. d \<noteq> 34) cs), c # cs) \<in> measure length"
    by simp
  show "(dropWhile bare cs, c # cs) \<in> measure length"
    using length_dropWhile_le [of bare cs] by simp
qed auto

definition tokenize :: "pystr \<Rightarrow> pystr list" where
  "tokenize string = findall_tokens (l_escape string)"

section \<open>Values and the reader\<close>

text \<open>
  Expressions and values are the same Python objects: \<open>quote\<close> returns an expression as
  a value and \<open>unquote\<close> evaluates a value. A float is the number it denotes (or one of
  the special values); its arithmetic belongs to the library and is a parameter below.
  A \<open>Procedure\<close> holds its parameters, its body and the address of the environment it
  was made in. \<open>VBuiltin\<close> names a callable of Python's library that \<open>standard_env\<close>
  installs; \<open>VStructPos\<close> and \<open>VStructCheck\<close> are the two closures \<open>make_functions\<close>
  creates; \<open>VExc\<close> is an exception object held as a value.
\<close>

datatype pyfloat = Finite rat | PosInf | NegInf | NegZero | NaN

datatype val =
    VInt int
  | VFloat pyfloat
  | VBool bool
  | VStr pystr
  | VNone
  | VList "val list"
  | VProc val val nat
  | VBuiltin pystr
  | VStructPos
  | VStructCheck pystr
  | VExc exc

text \<open>
  What the code takes from Python's library and from \<open>rs_utils\<close> (which is not among the
  sources) and that depends on Unicode tables or on the platform: \<open>int(token)\<close> and
  \<open>float(token)\<close> (\<open>None\<close> for \<open>ValueError\<close>), \<open>is_positive(token)\<close> (\<open>None\<close> for
  \<open>CommandSyntaxError\<close>), \<open>str.lower\<close>, the whitespace class of \<open>re\<close>, \<open>str.isdigit\<close>,
  \<open>str\<close> of a value that is neither a string nor an exception, the name of the type of a
  library callable, the operators \<open>==\<close>, \<open><=\<close>, \<open>>=\<close> and \<open>in\<close> (container first), and the
  callables of the library by the name \<open>standard_env\<close> gives them.
\<close>

record python =
  py_int :: "pystr \<Rightarrow> int option"
  py_float :: "pystr \<Rightarrow> pyfloat option"
  is_positive :: "pystr \<Rightarrow> bool option"
  py_lower :: "pystr \<Rightarrow> pystr"
  py_isspace :: "pychar \<Rightarrow> bool"
  py_isdigit :: "pystr \<Rightarrow> bool"
  py_repr :: "val \<Rightarrow> pystr"
  py_type_name :: "pystr \<Rightarrow> pystr"
  py_eq :: "val \<Rightarrow> val \<Rightarrow> bool"
  py_le :: "val \<Rightarrow> val \<Rightarrow> exc + val"
  py_ge :: "val \<Rightarrow> val \<Rightarrow> exc + val"
  py_contains :: "val \<Rightarrow> val \<Rightarrow> exc + bool"
  py_builtin :: "pystr \<Rightarrow> val list \<Rightarrow> exc + val"

definition atom :: "python \<Rightarrow> pystr \<Rightarrow> val" where
  "atom py token =
     (case py_int py token of
        Some i \<Rightarrow> VInt i
      | None \<Rightarrow>
          (case py_float py token of
             Some f \<Rightarrow> VFloat f
           | None \<Rightarrow>
               (case is_positive py token of
                  Some b \<Rightarrow> VBool b
                | None \<Rightarrow> VStr (py_lower py token))))"

text \<open>The substitution that \<open>read_from_tokens\<close> applies to a bare token removes the
  whitespace at both of its ends.\<close>

definition strip :: "python \<Rightarrow> pystr \<Rightarrow> pystr" where
  "strip py token = rev (dropWhile (py_isspace py) (rev (dropWhile (py_isspace py) token)))"

text \<open>The match that selects a quoted token: a double quote first, and a double quote later.\<close>

definition is_quoted :: "pystr \<Rightarrow> bool" where
  "is_quoted token = (case token of [] \<Rightarrow> False | c # cs \<Rightarrow> c = 34 \<and> 34 \<in> set cs)"

function str_of_nat :: "nat \<Rightarrow> pystr" where
  "str_of_nat n = (if n < 10 then [48 + n] else str_of_nat (n div 10) @ [48 + n mod 10])"
  by pat_completeness auto
termination
  by (relation "measure id") auto

fun type_name :: "val \<Rightarrow> pystr" where
  "type_name (VInt i) = ascii ''int''"
| "type_name (VFloat f) = ascii ''float''"
| "type_name (VBool b) = ascii ''bool''"
| "type_name (VStr s) = ascii ''str''"
| "type_name VNone = ascii ''NoneType''"
| "type_name (VList l) = ascii ''list''"
| "type_name (VProc p b e) = ascii ''Procedure''"
| "type_name (VBuiltin n) = ascii ''builtin_function_or_method''"
| "type_name VStructPos = ascii ''function''"
| "type_name (VStructCheck c) = ascii ''function''"
| "type_name (VExc e) = ascii ''CustomCommandSyntaxError''"

text \<open>
  \<open>sep.join(l)\<close>: every item must be a string; the first that is not raises
  \<open>TypeError\<close> with its position.
\<close>

fun str_join_from :: "nat \<Rightarrow> pystr \<Rightarrow> val list \<Rightarrow> exc + pystr" where
  "str_join_from i sep [] = Inr []"
| "str_join_from i sep (VStr s # rest) =
     (case str_join_from (Suc i) sep rest of
        Inl e \<Rightarrow> Inl e
      | Inr t \<Rightarrow> Inr (if rest = [] then s else s @ sep @ t))"
| "str_join_from i sep (v # rest) =
     Inl (Exc TypeError (ascii ''sequence item '' @ str_of_nat i @
       ascii '': expected str instance, '' @ type_name v @ ascii '' found''))"

definition str_join :: "pystr \<Rightarrow> val list \<Rightarrow> exc + pystr" where
  "str_join sep l = str_join_from 0 sep l"

text \<open>
  \<open>read_from_tokens\<close> pops tokens off the front of a shared list; here it returns the
  expression with the tokens that are left. \<open>read_list\<close> is the loop of the \<open>(\<close> branch
  and \<open>read_comment\<close> the loop of the \<open>;\<close> branch; \<open>tokens[0]\<close> on an exhausted list
  raises \<open>IndexError\<close> in both.
\<close>

function read_from_tokens :: "python \<Rightarrow> pystr list \<Rightarrow> exc + (val \<times> pystr list)"
  and read_list :: "python \<Rightarrow> val list \<Rightarrow> pystr list \<Rightarrow> exc + (val list \<times> pystr list)"
  and read_comment :: "python \<Rightarrow> val list \<Rightarrow> pystr list \<Rightarrow> exc + (val list \<times> pystr list)"
where
  "read_from_tokens py [] =
     Inl (Exc CustomCommandSyntaxError (ascii ''unexpected EOF while reading''))"
| "read_from_tokens py (token # tokens) =
     (if is_quoted token then
        Inr (VList [VStr (ascii ''quote''), VStr (l_restore (butlast (tl token)))], tokens)
      else if token = [40] then
        (case read_list py [] tokens of
           Inl e \<Rightarrow> Inl e
         | Inr (l, rest) \<Rightarrow> Inr (VList l, rest))
      else if token = [59] then
        (case read_comment py [VStr token] tokens of
           Inl e \<Rightarrow> Inl e
         | Inr (l, rest) \<Rightarrow>
             (case str_join [32] l of
                Inl e \<Rightarrow> Inl e
              | Inr string \<Rightarrow> Inr (VList [VStr (ascii ''quote''), VStr (l_restore string)], rest)))
      else if token = [41] then
        Inl (Exc CustomCommandSyntaxError (ascii ''unexpected )''))
      else Inr (atom py (strip py token), tokens))"
| "read_list py l [] = Inl (Exc IndexError (ascii ''list index out of range''))"
| "read_list py l (t # ts) =
     (if t = [41] then Inr (l, ts)
      else
        (case read_from_tokens py (t # ts) of
           Inl e \<Rightarrow> Inl e
         | Inr (v, rest) \<Rightarrow> read_list py (if v \<noteq> VStr [] then l @ [v] else l) rest))"
| "read_comment py l [] = Inl (Exc IndexError (ascii ''list index out of range''))"
| "read_comment py l (t # ts) =
     (if t = [10] then Inr (l @ [VStr t], ts)
      else
        (case read_from_tokens py (t # ts) of
           Inl e \<Rightarrow> Inl e
         | Inr (v, rest) \<Rightarrow> read_comment py (l @ [v]) rest))"
  by pat_completeness auto

lemma read_rest_shorter:
  "read_from_tokens_read_list_read_comment_dom (Inl (py, ts)) \<Longrightarrow>
     read_from_tokens py ts = Inr (v, rest) \<Longrightarrow> length rest < length ts"
  "read_from_tokens_read_list_read_comment_dom (Inr (Inl (py, l, ts))) \<Longrightarrow>
     read_list py l ts = Inr (l', rest') \<Longrightarrow> length rest' < length ts"
  "read_from_tokens_read_list_read_comment_dom (Inr (Inr (py, l, ts))) \<Longrightarrow>
     read_comment py l ts = Inr (l', rest') \<Longrightarrow> length rest' < length ts"
proof (induction py ts and py l ts and py l ts arbitrary: v rest and l' rest' and l' rest'
    rule: read_from_tokens_read_list_read_comment.pinduct)
  case (1 py)
  then show ?case by (simp add: read_from_tokens.psimps)
next
  case (2 py token tokens)
  show ?case
  proof (cases "is_quoted token")
    case True
    with "2.prems" "2.hyps" show ?thesis by (simp add: read_from_tokens.psimps)
  next
    case nq: False
    show ?thesis
    proof (cases "token = [40]")
      case True
      with nq "2.prems" "2.hyps" obtain l where "read_list py [] tokens = Inr (l, rest)"
        by (auto simp add: read_from_tokens.psimps split: sum.splits prod.splits)
      with "2.IH"(1) [OF nq True] have "length rest < length tokens" by blast
      then show ?thesis by simp
    next
      case np: False
      show ?thesis
      proof (cases "token = [59]")
        case True
        with nq np "2.prems" "2.hyps" obtain l where "read_comment py [VStr token] tokens = Inr (l, rest)"
          by (auto simp add: read_from_tokens.psimps split: sum.splits prod.splits)
        with "2.IH"(2) [OF nq np True] have "length rest < length tokens" by blast
        then show ?thesis by simp
      next
        case False
        with nq np "2.prems" "2.hyps" show ?thesis
          by (auto simp add: read_from_tokens.psimps split: if_splits)
      qed
    qed
  qed
next
  case (3 py l)
  then show ?case by (simp add: read_list.psimps)
next
  case (4 py l t ts)
  show ?case
  proof (cases "t = [41]")
    case True
    with "4.prems" "4.hyps" show ?thesis by (simp add: read_list.psimps)
  next
    case False
    with "4.prems" "4.hyps" obtain v r where
      a: "read_from_tokens py (t # ts) = Inr (v, r)" and
      b: "read_list py (if v \<noteq> VStr [] then l @ [v] else l) r = Inr (l', rest')"
      by (auto simp add: read_list.psimps split: sum.splits prod.splits)
    from "4.IH"(1) [OF False a] have "length r < length (t # ts)" .
    moreover from "4.IH"(2) [OF False a refl b] have "length rest' < length r" .
    ultimately show ?thesis by simp
  qed
next
  case (5 py l)
  then show ?case by (simp add: read_comment.psimps)
next
  case (6 py l t ts)
  show ?case
  proof (cases "t = [10]")
    case True
    with "6.prems" "6.hyps" show ?thesis by (simp add: read_comment.psimps)
  next
    case False
    with "6.prems" "6.hyps" obtain v r where
      a: "read_from_tokens py (t # ts) = Inr (v, r)" and
      b: "read_comment py (l @ [v]) r = Inr (l', rest')"
      by (auto simp add: read_comment.psimps split: sum.splits prod.splits)
    from "6.IH"(1) [OF False a] have "length r < length (t # ts)" .
    moreover from "6.IH"(2) [OF False a refl b] have "length rest' < length r" .
    ultimately show ?thesis by simp
  qed
qed

termination read_from_tokens
proof (relation "measure (\<lambda>x. case x of
          Inl (py, ts) \<Rightarrow> 2 * length ts
        | Inr (Inl (py, l, ts)) \<Rightarrow> 2 * length ts + 1
        | Inr (Inr (py, l, ts)) \<Rightarrow> 2 * length ts + 1)", goal_cases)
  case 1
  then show ?case by simp
next
  case (2 py token tokens)
  then show ?case by simp
next
  case (3 py token tokens)
  then show ?case by simp
next
  case (4 py l t ts)
  then show ?case by simp
next
  case (5 py l t ts x2 x y)
  then show ?case using read_rest_shorter(1) [of py "t # ts"] by auto
next
  case (6 py l t ts)
  then show ?case by simp
next
  case (7 py l t ts x2 x y)
  then show ?case using read_rest_shorter(1) [of py "t # ts"] by auto
qed

definition parse :: "python \<Rightarrow> pystr \<Rightarrow> exc + val" where
  "parse py program =
     (case read_from_tokens py (tokenize program) of
        Inl e \<Rightarrow> Inl e
      | Inr (v, rest) \<Rightarrow> Inr v)"

section \<open>transcode\<close>

definition def_code :: pystr where
  "def_code = ascii ''ABCDEFGHIJKLMabcdefghijklmNOPQRSTUVWXYZnopqrstuvwxyz''"

text \<open>The dictionary \<open>alt_code\<close> of \<open>transcode\<close>, in the order of the source, as code points.\<close>

definition alt_code :: "(pystr \<times> pystr) list" where
  "alt_code = [
    (ascii ''rot13'',
     [78, 79, 80, 81, 82, 83, 84, 85, 86, 87, 88, 89, 90, 110, 111, 112, 113, 114, 115, 116, 117, 118, 119, 120, 121, 122, 65, 66, 67, 68, 69, 70, 71, 72, 73, 74, 75, 76, 77, 97, 98, 99, 100, 101, 102, 103, 104, 105, 106, 107, 108, 109]),
    (ascii ''circled'',
     [9398, 9399, 9400, 9401, 9402, 9403, 9404, 9405, 9406, 9407, 9408, 9409, 9410, 9424, 9425, 9426, 9427, 9428, 9429, 9430, 9431, 9432, 9433, 9434, 9435, 9436, 9411, 9412, 9413, 9414, 9415, 9416, 9417, 9418, 9419, 9420, 9421, 9422, 9423, 9437, 9438, 9439, 9440, 9441, 9442, 9443, 9444, 9445, 9446, 9447, 9448, 9449]),
    (ascii ''circled_neg'',
     [127312, 127313, 127314, 127315, 127316, 127317, 127318, 127319, 127320, 127321, 127322, 127323, 127324, 127312, 127313, 127314, 127315, 127316, 127317, 127318, 127319, 127320, 127321, 127322, 127323, 127324, 127325, 127326, 127327, 127328, 127329, 127330, 127331, 127332, 127333, 127334, 127335, 127336, 127337, 127325, 127326, 127327, 127328, 127329, 127330, 127331, 127332, 127333, 127334, 127335, 127336, 127337]),
    (ascii ''fwidth'',
     [65313, 65314, 65315, 65316, 65317, 65318, 65319, 65320, 65321, 65322, 65323, 65324, 65325, 65345, 65346, 65347, 65348, 65349, 65350, 65351, 65352, 65353, 65354, 65355, 65356, 65357, 65326, 65327, 65328, 65329, 65330, 65331, 65332, 65333, 65334, 65335, 65336, 65337, 65338, 65358, 65359, 65360, 65361, 65362, 65363, 65364, 65365, 65366, 65367, 65368, 65369, 65370]),
    (ascii ''mbold'',
     [119808, 119809, 119810, 119811, 119812, 119813, 119814, 119815, 119816, 119817, 119818, 119819, 119820, 119834, 119835, 119836, 119837, 119838, 119839, 119840, 119841, 119842, 119843, 119844, 119845, 119846, 119821, 119822, 119823, 119824, 119825, 119826, 119827, 119828, 119829, 119830, 119831, 119832, 119833, 119847, 119848, 119849, 119850, 119851, 119852, 119853, 119854, 119855, 119856, 119857, 119858, 119859]),
    (ascii ''mbolditalic'',
     [119912, 119913, 119914, 119915, 119916, 119917, 119918, 119919, 119920, 119921, 119922, 119923, 119924, 119938, 119939, 119940, 119941, 119942, 119943, 119944, 119945, 119946, 119947, 119948, 119949, 119950, 119925, 119926, 119927, 119928, 119929, 119930, 119931, 119932, 119933, 119934, 119935, 119936, 119937, 119951, 119952, 119953, 119954, 119955, 119956, 119957, 119958, 119959, 119960, 119961, 119962, 119963]),
    (ascii ''frakturbold'',
     [120172, 120173, 120174, 120175, 120176, 120177, 120178, 120179, 120180, 120181, 120182, 120183, 120184, 120198, 120199, 120200, 120201, 120202, 120203, 120204, 120205, 120206, 120207, 120208, 120209, 120210, 120185, 120186, 120187, 120188, 120189, 120190, 120191, 120192, 120193, 120194, 120195, 120196, 120197, 120211, 120212, 120213, 120214, 120215, 120216, 120217, 120218, 120219, 120220, 120221, 120222, 120223]),
    (ascii ''fraktur'',
     [120068, 120069, 8493, 120071, 120072, 120073, 120074, 8460, 8465, 120077, 120078, 120079, 120080, 120094, 120095, 120096, 120097, 120098, 120099, 120100, 120101, 120102, 120103, 120104, 120105, 120106, 120081, 120082, 120083, 120084, 8476, 120086, 120087, 120088, 120089, 120090, 120091, 120092, 8488, 120107, 120108, 120109, 120110, 120111, 120112, 120113, 120114, 120115, 120116, 120117, 120118, 120119]),
    (ascii ''scriptbold'',
     [120016, 120017, 120018, 120019, 120020, 120021, 120022, 120023, 120024, 120025, 120026, 120027, 120028, 120042, 120043, 120044, 120045, 120046, 120047, 120048, 120049, 120050, 120051, 120052, 120053, 120054, 120029, 120030, 120031, 120032, 120033, 120034, 120035, 120036, 120037, 120038, 120039, 120040, 120041, 120055, 120056, 120057, 120058, 120059, 120060, 120061, 120062, 120063, 120064, 120065, 120066, 120067]),
    (ascii ''script'',
     [119964, 119861, 119966, 119967, 119864, 119865, 119970, 119867, 119868, 119973, 119974, 119871, 119872, 119990, 119991, 119992, 119993, 119890, 119995, 119892, 119997, 119998, 119999, 120000, 120001, 120002, 119977, 119978, 119979, 119980, 119877, 119982, 119983, 119984, 119985, 119986, 119987, 119988, 119989, 120003, 119900, 120005, 120006, 120007, 120008, 120009, 120010, 120011, 120012, 120013, 120014, 120015]),
    (ascii ''sans'',
     [120224, 120225, 120226, 120227, 120228, 120229, 120230, 120231, 120232, 120233, 120234, 120235, 120236, 120250, 120251, 120252, 120253, 120254, 120255, 120256, 120257, 120258, 120259, 120260, 120261, 120262, 120237, 120238, 120239, 120240, 120241, 120242, 120243, 120244, 120245, 120246, 120247, 120248, 120249, 120263, 120264, 120265, 120266, 120267, 120268, 120269, 120270, 120271, 120272, 120273, 120274, 120275]),
    (ascii ''sansbold'',
     [120276, 120277, 120278, 120279, 120280, 120281, 120282, 120283, 120284, 120285, 120286, 120287, 120288, 120302, 120303, 120304, 120305, 120306, 120307, 120308, 120309, 120310, 120311, 120312, 120313, 120314, 120289, 120290, 120291, 120292, 120293, 120294, 120295, 120296, 120297, 120298, 120299, 120300, 120301, 120315, 120316, 120317, 120318, 120319, 120320, 120321, 120322, 120323, 120324, 120325, 120326, 120327]),
    (ascii ''sansbolditalic'',
     [120380, 120381, 120382, 120383, 120384, 120385, 120386, 120387, 120388, 120389, 120390, 120391, 120392, 120406, 120407, 120408, 120409, 120410, 120411, 120412, 120413, 120414, 120415, 120416, 120417, 120418, 120393, 120394, 120395, 120396, 120397, 120398, 120399, 120400, 120401, 120402, 120403, 120404, 120405, 120419, 120420, 120421, 120422, 120423, 120424, 120425, 120426, 120427, 120428, 120429, 120430, 120431]),
    (ascii ''sansitalic'',
     [120328, 120329, 120330, 120331, 120332, 120333, 120334, 120335, 120336, 120337, 120338, 120339, 120340, 120354, 120355, 120356, 120357, 120358, 120359, 120360, 120361, 120362, 120363, 120364, 120365, 120366, 120341, 120342, 120343, 120344, 120345, 120346, 120347, 120348, 120349, 120350, 120351, 120352, 120353, 120367, 120368, 120369, 120370, 120371, 120372, 120373, 120374, 120375, 120376, 120377, 120378, 120379]),
    (ascii ''parenthesized'',
     [9372, 9373, 9374, 9375, 9376, 9377, 9378, 9379, 9380, 9381, 9382, 9383, 9384, 9372, 9373, 9374, 9375, 9376, 9377, 9378, 9379, 9380, 9381, 9382, 9383, 9384, 9385, 9386, 9387, 9388, 9389, 9390, 9391, 9392, 9393, 9394, 9395, 9396, 9397, 9385, 9386, 9387, 9388, 9389, 9390, 9391, 9392, 9393, 9394, 9395, 9396, 9397]),
    (ascii ''doublestruck'',
     [120120, 120121, 8450, 120123, 120124, 120125, 120126, 8461, 120128, 120129, 120130, 120131, 120132, 120146, 120147, 120148, 120149, 120150, 120151, 120152, 120153, 120154, 120155, 120156, 120157, 120158, 8469, 120134, 8473, 8474, 8477, 120138, 120139, 120140, 120141, 120142, 120143, 120144, 8484, 120159, 120160, 120161, 120162, 120163, 120164, 120165, 120166, 120167, 120168, 120169, 120170, 120171]),
    (ascii ''region'',
     [127462, 127463, 127464, 127465, 127466, 127467, 127468, 127469, 127470, 127471, 127472, 127473, 127474, 127462, 127463, 127464, 127465, 127466, 127467, 127468, 127469, 127470, 127471, 127472, 127473, 127474, 127475, 127476, 127477, 127478, 127479, 127480, 127481, 127482, 127483, 127484, 127485, 127486, 127487, 127475, 127476, 127477, 127478, 127479, 127480, 127481, 127482, 127483, 127484, 127485, 127486, 127487]),
    (ascii ''squared'',
     [127280, 127281, 127282, 127283, 127284, 127285, 127286, 127287, 127288, 127289, 127290, 127291, 127292, 127280, 127281, 127282, 127283, 127284, 127285, 127286, 127287, 127288, 127289, 127290, 127291, 127292, 127293, 127294, 127295, 127296, 127297, 127298, 127299, 127300, 127301, 127302, 127303, 127304, 127305, 127293, 127294, 127295, 127296, 127297, 127298, 127299, 127300, 127301, 127302, 127303, 127304, 127305]),
    (ascii ''squared_neg'',
     [127344, 127345, 127346, 127347, 127348, 127349, 127350, 127351, 127352, 127353, 127354, 127355, 127356, 127344, 127345, 127346, 127347, 127348, 127349, 127350, 127351, 127352, 127353, 127354, 127355, 127356, 127357, 127358, 127359, 127360, 127361, 127362, 127363, 127364, 127365, 127366, 127367, 127368, 127369, 127357, 127358, 127359, 127360, 127361, 127362, 127363, 127364, 127365, 127366, 127367, 127368, 127369]),
    (ascii ''subscript'',
     [8336, 66, 67, 68, 8337, 70, 71, 8341, 7522, 11388, 8342, 8343, 8344, 8336, 98, 99, 100, 8337, 102, 103, 8341, 7522, 11388, 8342, 8343, 8344, 8345, 8338, 8346, 81, 7523, 8347, 8348, 7524, 7525, 87, 8339, 89, 90, 8345, 8338, 8346, 113, 7523, 8347, 8348, 7524, 7525, 119, 8339, 121, 122]),
    (ascii ''superscript'',
     [7468, 7470, 7580, 7472, 7473, 7584, 7475, 7476, 7477, 7478, 7479, 7480, 7481, 7491, 7495, 7580, 7496, 7497, 7584, 7501, 688, 8305, 690, 7503, 737, 7504, 7482, 7484, 7486, 81, 7487, 738, 7488, 7489, 11389, 7490, 739, 696, 7611, 8319, 7506, 7510, 113, 691, 738, 7511, 7512, 7515, 695, 739, 696, 7611]),
    (ascii ''inverted'',
     [592, 113, 596, 112, 477, 607, 387, 613, 305, 638, 670, 1503, 623, 592, 113, 596, 112, 477, 607, 387, 613, 305, 638, 670, 1503, 623, 117, 111, 100, 98, 633, 115, 647, 110, 66337, 653, 120, 654, 122, 117, 111, 100, 98, 633, 115, 647, 110, 652, 653, 120, 654, 122]),
    (ascii ''reversed'',
     [65, 100, 8579, 98, 398, 43003, 71, 72, 73, 74, 75, 8515, 77, 65, 100, 8580, 98, 600, 43003, 103, 72, 105, 106, 107, 108, 109, 7438, 79, 43004, 112, 7449, 42564, 84, 85, 86, 87, 88, 89, 90, 7438, 111, 113, 112, 7449, 42565, 84, 85, 118, 119, 120, 89, 122]),
    (ascii ''smallcaps'',
     [65, 66, 67, 68, 69, 70, 71, 72, 73, 74, 75, 76, 77, 7424, 665, 7428, 7429, 7431, 42800, 610, 668, 618, 7434, 7435, 671, 7437, 78, 79, 80, 81, 82, 83, 84, 85, 86, 87, 88, 89, 90, 628, 7439, 7465, 113, 640, 42801, 7451, 7452, 7456, 7457, 120, 121, 7458]),
    (ascii ''weird1'',
     [4621, 4876, 4653, 4821, 4735, 4731, 4759, 4824, 4878, 4875, 4885, 4648, 4896, 4621, 4876, 4653, 4821, 4735, 4731, 4759, 4824, 4878, 4875, 4885, 4648, 4896, 4781, 4816, 4840, 4818, 4842, 4752, 4949, 4609, 4608, 4640, 4664, 4611, 4874, 4781, 4816, 4840, 4818, 4842, 4752, 4949, 4609, 4608, 4640, 4664, 4611, 4874]),
    (ascii ''weird2'',
     [1044, 1041, 1152, 8577, 1028, 70, 1041, 1053, 1030, 1032, 1036, 76, 1052, 1072, 1098, 1089, 8577, 1101, 102, 1041, 1026, 1110, 1112, 1082, 108, 1084, 1048, 1060, 1056, 81, 1071, 1029, 1043, 1062, 86, 1065, 1046, 1063, 90, 1080, 1086, 1088, 113, 1107, 1109, 1090, 1094, 118, 1096, 1093, 1038, 122]),
    (ascii ''weird3'',
     [3588, 3666, 392, 599, 65225, 2367, 65261, 614, 1649, 65245, 5845, 621, 3667, 3588, 3666, 392, 599, 65225, 2367, 65261, 614, 1649, 65245, 5845, 621, 3667, 3585, 1147, 961, 1785, 636, 3619, 1351, 2730, 1783, 3613, 3595, 1509, 1401, 3585, 1147, 961, 1785, 636, 3619, 1351, 2730, 1783, 3613, 3595, 1509, 1401]),
    (ascii ''weird4'',
     [945, 1074, 162, 8706, 1108, 402, 65261, 1085, 953, 1504, 1082, 8467, 1084, 945, 1074, 162, 8706, 1108, 402, 65261, 1085, 953, 1504, 1082, 8467, 1084, 951, 963, 961, 1785, 1103, 1109, 1090, 965, 957, 969, 967, 1091, 1401, 951, 963, 961, 1785, 1103, 1109, 1090, 965, 957, 969, 967, 1091, 1401]),
    (ascii ''weird5'',
     [3588, 3666, 962, 3668, 1108, 358, 65262, 1106, 3648, 1503, 1082, 621, 3667, 3588, 3666, 962, 3668, 1108, 358, 65262, 1106, 3648, 1503, 1082, 621, 3667, 3616, 3663, 1511, 7907, 1075, 3619, 1351, 3618, 1513, 3628, 1488, 1509, 1401, 3616, 3663, 1511, 7907, 1075, 3619, 1351, 3618, 1513, 3628, 1488, 1509, 1401]),
    (ascii ''weird6'',
     [65425, 20035, 99, 100, 20039, 65399, 103, 12435, 65417, 65420, 12474, 65434, 65462, 65425, 20035, 99, 100, 20039, 65399, 103, 12435, 65417, 65420, 12474, 65434, 65462, 20992, 111, 65393, 113, 23610, 19970, 65394, 117, 8730, 119, 65426, 65432, 20057, 20992, 111, 65393, 113, 23610, 19970, 65394, 117, 8730, 119, 65426, 65432, 20057]),
    (ascii ''sbancient'',
     [57344, 57345, 57346, 57347, 57348, 57349, 57350, 57351, 57352, 57353, 57354, 57355, 57356, 57344, 57345, 57346, 57347, 57348, 57349, 57350, 57351, 57352, 57353, 57354, 57355, 57356, 57357, 57358, 57359, 57360, 57361, 57362, 57363, 57364, 57365, 57366, 57367, 57368, 57369, 57357, 57358, 57359, 57360, 57361, 57362, 57363, 57364, 57365, 57366, 57367, 57368, 57369])
  ]"

definition translate_with :: "pystr \<Rightarrow> pystr \<Rightarrow> pystr \<Rightarrow> exc + pystr" where
  "translate_with from to string =
     (case maketrans from to of
        Inl e \<Rightarrow> Inl e
      | Inr m \<Rightarrow> Inr (translate m string))"

text \<open>
  \<open>transcode(string, *args)\<close> on string arguments: no argument returns the string, one
  argument names an entry of \<open>alt_code\<close> (or asks for help), two or more give the two
  mapping strings and the rest is ignored.
\<close>

definition transcode :: "python \<Rightarrow> pystr \<Rightarrow> pystr list \<Rightarrow> exc + pystr" where
  "transcode py string args =
     (case args of
        [] \<Rightarrow> Inr string
      | [a] \<Rightarrow>
          (if py_lower py a = ascii ''help'' then
             Inr ([96, 96, 96, 10] @ ascii ''AVAILABLE TRANSCODINGS:'' @ [10] @
                  (case str_join [10] (map (\<lambda>(k, v). VStr k) alt_code) of
                     Inl e \<Rightarrow> [] | Inr t \<Rightarrow> t) @ [96, 96, 96])
           else
             (case map_of alt_code (py_lower py a) of
                None \<Rightarrow>
                  Inl (Exc CustomCommandSyntaxError
                    (py_lower py a @ ascii '' is not a supported transcoding. Use (transcode '' @
                     [34] @ ascii ''help'' @ [34] @
                     ascii '') to get a list of available transcodings.''))
              | Some alt \<Rightarrow> translate_with def_code alt string))
      | a # b # others \<Rightarrow>
          (if length a \<noteq> length b then
             Inl (Exc CustomCommandSyntaxError
               (ascii ''transcode: To and From transcoding patterns must be the same length.''))
           else translate_with a b string))"

section \<open>An instance of the library parameters\<close>

text \<open>
  An instance of the record \<open>python\<close> for running the model on ASCII input: decimal
  integers with an optional sign, no float literal, ASCII lower-casing, whitespace and
  digits, equality of values as \<open>==\<close>, the order of integers, membership in a list, and
  the sum of two integers as the only library callable.

  Modelled from the spec: \<open>is_positive\<close> of \<open>rs_utils\<close>, which is not among the sources;
  the spec names a case-insensitive true/false family of literals, and the instance
  recognises the words true and false.
\<close>

definition ascii_digit :: "pychar \<Rightarrow> bool" where
  "ascii_digit c = (48 \<le> c \<and> c \<le> 57)"

definition nat_of_digits :: "pystr \<Rightarrow> nat" where
  "nat_of_digits s = foldl (\<lambda>n c. 10 * n + (c - 48)) 0 s"

definition ascii_int :: "pystr \<Rightarrow> int option" where
  "ascii_int s =
     (case s of
        [] \<Rightarrow> None
      | c # cs \<Rightarrow>
          if (c = 45 \<or> c = 43) \<and> cs \<noteq> [] \<and> list_all ascii_digit cs
          then Some ((if c = 45 then - 1 else 1) * int (nat_of_digits cs))
          else if list_all ascii_digit (c # cs) then Some (int (nat_of_digits (c # cs)))
          else None)"

definition ascii_lower :: "pystr \<Rightarrow> pystr" where
  "ascii_lower s = map (\<lambda>c. if 65 \<le> c \<and> c \<le> 90 then c + 32 else c) s"

definition ascii_bool :: "pystr \<Rightarrow> bool option" where
  "ascii_bool s =
     (if ascii_lower s = ascii ''true'' then Some True
      else if ascii_lower s = ascii ''false'' then Some False
      else None)"

definition ascii_isspace :: "pychar \<Rightarrow> bool" where
  "ascii_isspace c = (c = 32 \<or> (9 \<le> c \<and> c \<le> 13))"

fun ascii_repr :: "val \<Rightarrow> pystr" where
  "ascii_repr (VInt i) = (if i < 0 then [45] else []) @ str_of_nat (nat \<bar>i\<bar>)"
| "ascii_repr (VBool b) = (if b then ascii ''True'' else ascii ''False'')"
| "ascii_repr VNone = ascii ''None''"
| "ascii_repr v = ascii ''<object>''"

fun int_sum :: "pystr \<Rightarrow> val list \<Rightarrow> exc + val" where
  "int_sum name [VInt a, VInt b] =
     (if name = [43] then Inr (VInt (a + b))
      else Inl (Exc TypeError (ascii ''not callable'')))"
| "int_sum name args = Inl (Exc TypeError (ascii ''unsupported operand''))"

fun int_le :: "val \<Rightarrow> val \<Rightarrow> exc + val" where
  "int_le (VInt a) (VInt b) = Inr (VBool (a \<le> b))"
| "int_le a b = Inl (Exc TypeError (ascii ''not supported between instances''))"

definition py0 :: python where
  "py0 = \<lparr> py_int = ascii_int, py_float = (\<lambda>s. None), is_positive = ascii_bool,
           py_lower = ascii_lower, py_isspace = ascii_isspace,
           py_isdigit = (\<lambda>s. s \<noteq> [] \<and> list_all ascii_digit s),
           py_repr = ascii_repr,
           py_type_name = (\<lambda>n. ascii ''builtin_function_or_method''),
           py_eq = (\<lambda>a b. a = b),
           py_le = int_le, py_ge = (\<lambda>a b. int_le b a),
           py_contains = (\<lambda>c x. case c of VList l \<Rightarrow> Inr (x \<in> set l)
                                     | _ \<Rightarrow> Inl (Exc TypeError (ascii ''not a container''))),
           py_builtin = int_sum \<rparr>"

section \<open>Environments and the interpreter state\<close>

text \<open>
  \<open>Env\<close> is a dictionary with a link to the enclosing environment, the time of its
  creation and a budget. Environments are shared: a \<open>Procedure\<close> keeps the environment it
  was made in, and \<open>define\<close> and \<open>:=\<close> change an environment in place. So environments live
  in a heap and are named by their address; the heap hands out addresses in order.
  The names the evaluator looks up are strings, and \<open>vars\<close> keeps the string keys in the
  order of insertion. A key that is not a string can be stored but is never looked up;
  \<open>other_keys\<close> records that there is one, because Python takes an \<open>Env\<close> with an empty
  dictionary for false. Times are rationals (the rounding of floats is not modelled);
  \<open>clock\<close> gives the value of every call of \<open>time()\<close>, and \<open>reads\<close> counts the calls.
\<close>

record env =
  vars :: "(pystr \<times> val) list"
  other_keys :: bool
  outer :: "nat option"
  timestamp :: rat
  max_runtime :: rat

record state =
  heap :: "nat \<Rightarrow> env"
  next_env :: nat
  clock :: "nat \<Rightarrow> rat"
  reads :: nat

text \<open>
  An evaluation returns a value, raises an exception, or leaves what is modelled here
  (\<open>Unmodelled\<close>: reflection on Python objects and mutation of a list in place). \<open>None\<close>
  stands for an evaluation that has not ended within the fuel it was given.
\<close>

datatype 'a outcome = Ret 'a | Raise exc | Unmodelled

type_synonym 'a res = "('a outcome \<times> state) option"

definition bind :: "'a res \<Rightarrow> ('a \<Rightarrow> state \<Rightarrow> 'b res) \<Rightarrow> 'b res" where
  "bind r f =
     (case r of
        None \<Rightarrow> None
      | Some (Ret v, st) \<Rightarrow> f v st
      | Some (Raise e, st) \<Rightarrow> Some (Raise e, st)
      | Some (Unmodelled, st) \<Rightarrow> Some (Unmodelled, st))"

definition of_sum :: "exc + 'a \<Rightarrow> 'a outcome" where
  "of_sum r = (case r of Inl e \<Rightarrow> Raise e | Inr v \<Rightarrow> Ret v)"

definition time_now :: "state \<Rightarrow> rat \<times> state" where
  "time_now st = (clock st (reads st), st\<lparr>reads := Suc (reads st)\<rparr>)"

definition global_env :: nat where
  "global_env = 0"

fun dict_set :: "pystr \<Rightarrow> val \<Rightarrow> (pystr \<times> val) list \<Rightarrow> (pystr \<times> val) list" where
  "dict_set k v [] = [(k, v)]"
| "dict_set k v ((k', v') # d) = (if k = k' then (k, v) # d else (k', v') # dict_set k v d)"

definition quoted :: "pystr \<Rightarrow> pystr" where
  "quoted s = [39] @ s @ [39]"

definition kind_name :: "kind \<Rightarrow> pystr" where
  "kind_name k =
     (case k of
        CustomCommandSyntaxError \<Rightarrow> ascii ''CustomCommandSyntaxError''
      | IndexError \<Rightarrow> ascii ''IndexError''
      | TypeError \<Rightarrow> ascii ''TypeError''
      | ValueError \<Rightarrow> ascii ''ValueError''
      | AttributeError \<Rightarrow> ascii ''AttributeError'')"

definition type_of :: "python \<Rightarrow> val \<Rightarrow> pystr" where
  "type_of py v =
     (case v of
        VBuiltin n \<Rightarrow> py_type_name py n
      | VExc e \<Rightarrow> kind_name (exc_kind e)
      | _ \<Rightarrow> type_name v)"

text \<open>\<open>d[key] = value\<close> on an environment: a list is not hashable.\<close>

definition env_set :: "val \<Rightarrow> val \<Rightarrow> env \<Rightarrow> exc + env" where
  "env_set key v e =
     (case key of
        VStr k \<Rightarrow> Inr (e\<lparr>vars := dict_set k v (vars e)\<rparr>)
      | VList l \<Rightarrow> Inl (Exc TypeError (ascii ''unhashable type: '' @ quoted (ascii ''list'')))
      | _ \<Rightarrow> Inr (e\<lparr>other_keys := True\<rparr>))"

definition set_item :: "nat \<Rightarrow> val \<Rightarrow> val \<Rightarrow> state \<Rightarrow> val res" where
  "set_item a key v st =
     (case env_set key v (heap st a) of
        Inl e \<Rightarrow> Some (Raise e, st)
      | Inr e' \<Rightarrow> Some (Ret VNone, st\<lparr>heap := (heap st)(a := e')\<rparr>))"

text \<open>The state after \<open>d[k] = v\<close> on the environment at \<open>a\<close>, for a name \<open>k\<close>.\<close>

definition rebind :: "nat \<Rightarrow> pystr \<Rightarrow> val \<Rightarrow> state \<Rightarrow> state" where
  "rebind a k v st = st\<lparr>heap := (heap st)(a := (heap st a)\<lparr>vars := dict_set k v (vars (heap st a))\<rparr>)\<rparr>"

fun env_update :: "(val \<times> val) list \<Rightarrow> env \<Rightarrow> exc + env" where
  "env_update [] e = Inr e"
| "env_update ((k, v) # kvs) e =
     (case env_set k v e of
        Inl x \<Rightarrow> Inl x
      | Inr e' \<Rightarrow> env_update kvs e')"

text \<open>Iterating a value, as \<open>zip\<close> and \<open>for\<close> do: a list gives its items, a string its characters.\<close>

definition py_iter :: "python \<Rightarrow> val \<Rightarrow> exc + val list" where
  "py_iter py v =
     (case v of
        VList l \<Rightarrow> Inr l
      | VStr s \<Rightarrow> Inr (map (\<lambda>c. VStr [c]) s)
      | _ \<Rightarrow> Inl (Exc TypeError (quoted (type_of py v) @ ascii '' object is not iterable'')))"

text \<open>
  \<open>Env(parms, args, outer)\<close>: the dictionary of \<open>zip(parms, args)\<close>, the link, the time of
  creation and the budget 0 (the default of \<open>max_runtime\<close>, the only one \<open>rs_lisp.py\<close>
  itself ever passes). The new environment gets the next address.
\<close>

definition new_env :: "python \<Rightarrow> val \<Rightarrow> val list \<Rightarrow> nat option \<Rightarrow> state \<Rightarrow> exc + (nat \<times> state)" where
  "new_env py parms args out st =
     (case py_iter py parms of
        Inl e \<Rightarrow> Inl e
      | Inr ps \<Rightarrow>
          (case env_update (zip ps args)
                  \<lparr>vars = [], other_keys = False, outer = out, timestamp = 0, max_runtime = 0\<rparr> of
             Inl e \<Rightarrow> Inl e
           | Inr e \<Rightarrow>
               (case time_now st of
                  (t, st') \<Rightarrow>
                    Inr (next_env st',
                         st'\<lparr>heap := (heap st')(next_env st' := e\<lparr>timestamp := t\<rparr>),
                             next_env := Suc (next_env st')\<rparr>))))"

text \<open>
  \<open>Env.find\<close>. The test \<open>elif self.outer\<close> is the truth value of a dictionary: an outer
  environment with no key at all counts as absent. An outer environment was created
  before its child and so has a smaller address; \<open>find\<close> follows the link only then (no
  state the evaluator builds has another link), which is what makes it total.
\<close>

definition env_truthy :: "env \<Rightarrow> bool" where
  "env_truthy e = (vars e \<noteq> [] \<or> other_keys e)"

function find :: "state \<Rightarrow> nat \<Rightarrow> pystr \<Rightarrow> exc + nat" where
  "find st a var =
     (if map_of (vars (heap st a)) var \<noteq> None then Inr a
      else
        (case outer (heap st a) of
           Some b \<Rightarrow>
             if b < a \<and> env_truthy (heap st b) then find st b var
             else Inl (Exc CustomCommandSyntaxError (ascii ''undefined var '' @ var))
         | None \<Rightarrow> Inl (Exc CustomCommandSyntaxError (ascii ''undefined var '' @ var))))"
  by pat_completeness auto
termination
  by (relation "measure (\<lambda>(st, a, var). a)") auto

declare find.simps [simp del]

text \<open>\<open>env.find(var)[var]\<close>.\<close>

definition lookup :: "state \<Rightarrow> nat \<Rightarrow> pystr \<Rightarrow> exc + val" where
  "lookup st a var =
     (case find st a var of
        Inl e \<Rightarrow> Inl e
      | Inr b \<Rightarrow>
          (case map_of (vars (heap st b)) var of
             Some v \<Rightarrow> Inr v
           | None \<Rightarrow> Inl (Exc CustomCommandSyntaxError (ascii ''undefined var '' @ var))))"

section \<open>Python operations the evaluator uses\<close>

definition py_truth :: "val \<Rightarrow> bool" where
  "py_truth v =
     (case v of
        VInt i \<Rightarrow> i \<noteq> 0
      | VFloat f \<Rightarrow> f \<noteq> Finite 0 \<and> f \<noteq> NegZero
      | VBool b \<Rightarrow> b
      | VStr s \<Rightarrow> s \<noteq> []
      | VNone \<Rightarrow> False
      | VList l \<Rightarrow> l \<noteq> []
      | _ \<Rightarrow> True)"

definition to_str :: "python \<Rightarrow> val \<Rightarrow> pystr" where
  "to_str py v =
     (case v of
        VStr s \<Rightarrow> s
      | VExc e \<Rightarrow> exc_str e
      | _ \<Rightarrow> py_repr py v)"

definition as_index :: "val \<Rightarrow> int option" where
  "as_index v =
     (case v of
        VInt i \<Rightarrow> Some i
      | VBool b \<Rightarrow> Some (if b then 1 else 0)
      | _ \<Rightarrow> None)"

definition index_list :: "'a list \<Rightarrow> int \<Rightarrow> 'a option" where
  "index_list l i =
     (let n = int (length l); j = (if i < 0 then i + n else i)
      in if 0 \<le> j \<and> j < n then Some (l ! nat j) else None)"

text \<open>\<open>lst[index]\<close> on a list or a string.\<close>

definition py_getitem :: "python \<Rightarrow> val \<Rightarrow> val \<Rightarrow> val outcome" where
  "py_getitem py lst index =
     (case lst of
        VList l \<Rightarrow>
          (case as_index index of
             None \<Rightarrow> Raise (Exc TypeError
               (ascii ''list indices must be integers or slices, not '' @ type_of py index))
           | Some i \<Rightarrow>
               (case index_list l i of
                  None \<Rightarrow> Raise (Exc IndexError (ascii ''list index out of range''))
                | Some v \<Rightarrow> Ret v))
      | VStr s \<Rightarrow>
          (case as_index index of
             None \<Rightarrow> Raise (Exc TypeError
               (ascii ''string indices must be integers, not '' @ quoted (type_of py index)))
           | Some i \<Rightarrow>
               (case index_list s i of
                  None \<Rightarrow> Raise (Exc IndexError (ascii ''string index out of range''))
                | Some c \<Rightarrow> Ret (VStr [c])))
      | VBuiltin n \<Rightarrow> Unmodelled
      | _ \<Rightarrow> Raise (Exc TypeError (quoted (type_of py lst) @ ascii '' object is not subscriptable'')))"

text \<open>
  \<open>lst[lo:hi]\<close>, where \<open>None\<close> for a bound leaves it open: a negative bound counts from the
  end, and both are cut to the length.
\<close>

definition slice_bound :: "nat \<Rightarrow> int \<Rightarrow> nat" where
  "slice_bound n i = (if i < 0 then nat (max 0 (i + int n)) else min n (nat i))"

definition bad_bound :: "val option \<Rightarrow> bool" where
  "bad_bound b = (case b of None \<Rightarrow> False | Some v \<Rightarrow> v \<noteq> VNone \<and> as_index v = None)"

definition bound_of :: "nat \<Rightarrow> nat \<Rightarrow> val option \<Rightarrow> nat" where
  "bound_of n d b =
     (case b of
        None \<Rightarrow> d
      | Some v \<Rightarrow> (case as_index v of None \<Rightarrow> d | Some i \<Rightarrow> slice_bound n i))"

definition slice_cut :: "val option \<Rightarrow> val option \<Rightarrow> 'a list \<Rightarrow> 'a list" where
  "slice_cut lo hi xs =
     (let n = length xs; a = bound_of n 0 lo; b = bound_of n n hi in take (b - a) (drop a xs))"

definition py_slice :: "python \<Rightarrow> val \<Rightarrow> val option \<Rightarrow> val option \<Rightarrow> val outcome" where
  "py_slice py lst lo hi =
     (case lst of
        VList l \<Rightarrow>
          if bad_bound lo \<or> bad_bound hi then Raise (Exc TypeError
            (ascii ''slice indices must be integers or None or have an __index__ method''))
          else Ret (VList (slice_cut lo hi l))
      | VStr s \<Rightarrow>
          if bad_bound lo \<or> bad_bound hi then Raise (Exc TypeError
            (ascii ''slice indices must be integers or None or have an __index__ method''))
          else Ret (VStr (slice_cut lo hi s))
      | VBuiltin n \<Rightarrow> Unmodelled
      | _ \<Rightarrow> Raise (Exc TypeError (quoted (type_of py lst) @ ascii '' object is not subscriptable'')))"

definition py_len :: "python \<Rightarrow> val \<Rightarrow> exc + nat" where
  "py_len py v =
     (case v of
        VList l \<Rightarrow> Inr (length l)
      | VStr s \<Rightarrow> Inr (length s)
      | _ \<Rightarrow> Inl (Exc TypeError (ascii ''object of type '' @ quoted (type_of py v) @ ascii '' has no len()'')))"

text \<open>\<open>_lget(lst, *indexes)\<close>.\<close>

fun lget :: "python \<Rightarrow> val \<Rightarrow> val list \<Rightarrow> val outcome" where
  "lget py lst [] = Ret lst"
| "lget py lst (i # indexes) =
     (case py_getitem py lst i of
        Ret v \<Rightarrow> lget py v indexes
      | r \<Rightarrow> r)"

text \<open>\<open>str.split(sep)\<close> for a separator of one character.\<close>

fun split_on :: "pychar \<Rightarrow> pystr \<Rightarrow> pystr list" where
  "split_on sep [] = [[]]"
| "split_on sep (c # cs) =
     (if c = sep then [] # split_on sep cs
      else (case split_on sep cs of
              [] \<Rightarrow> [[c]]
            | p # ps \<Rightarrow> (c # p) # ps))"

definition unpack_error :: "nat \<Rightarrow> nat \<Rightarrow> exc" where
  "unpack_error expected got =
     (if got < expected
      then Exc ValueError (ascii ''not enough values to unpack (expected '' @ str_of_nat expected @
             ascii '', got '' @ str_of_nat got @ ascii '')'')
      else Exc ValueError (ascii ''too many values to unpack (expected '' @ str_of_nat expected @
             ascii '')''))"

text \<open>
  The message of an exception that is longer than 1500 characters is cut to three dots
  and the group of the match that \<open>lisp_eval\<close> asks for: at least one character, then the
  last opening parenthesis after which come at least one character, the three characters
  closing parenthesis, colon, space, and at least one more character up to the end (the
  end of the string, or the newline that ends it). No character matched is a newline.
  \<open>None\<close> when there is no match.
\<close>

fun has_sep :: "pystr \<Rightarrow> bool" where
  "has_sep [] = False"
| "has_sep (c # cs) = ((take 3 (c # cs) = [41, 58, 32] \<and> 3 < length (c # cs)) \<or> has_sep cs)"

definition clause_ok :: "pystr \<Rightarrow> bool" where
  "clause_ok t = (case t of c # d # rest \<Rightarrow> c = 40 \<and> has_sep rest | _ \<Rightarrow> False)"

definition trailing_clause :: "pystr \<Rightarrow> pystr option" where
  "trailing_clause s =
     (let body = (if s \<noteq> [] \<and> last s = 10 then butlast s else s)
      in if 10 \<in> set body then None
         else map_option (\<lambda>p. drop p body)
                (List.find (\<lambda>p. clause_ok (drop p body)) (rev [1..<length body])))"

definition shorten :: "pystr \<Rightarrow> pystr option" where
  "shorten msg =
     (if 1500 < length msg then map_option (\<lambda>g. ascii ''...'' @ g) (trailing_clause msg)
      else Some msg)"

text \<open>\<open>x[0]\<close> as the f-string of the handler prints it.\<close>

definition head_str :: "python \<Rightarrow> val \<Rightarrow> exc + pystr" where
  "head_str py x =
     (case x of
        VStr s \<Rightarrow>
          (case s of
             [] \<Rightarrow> Inl (Exc IndexError (ascii ''string index out of range''))
           | c # cs \<Rightarrow> Inr [c])
      | VList l \<Rightarrow>
          (case l of
             [] \<Rightarrow> Inl (Exc IndexError (ascii ''list index out of range''))
           | h # t \<Rightarrow> Inr (to_str py h))
      | _ \<Rightarrow> Inl (Exc TypeError (quoted (type_of py x) @ ascii '' object is not subscriptable'')))"

text \<open>
  The handler of \<open>lisp_eval\<close>: the message is shortened when it is long (where the
  pattern does not match, \<open>.group\<close> of \<open>None\<close> raises \<open>AttributeError\<close> out of the handler),
  and the exception is raised again as \<open>CustomCommandSyntaxError\<close> with \<open>x[0]\<close> in
  parentheses before the message; when \<open>x[0]\<close> raises \<open>IndexError\<close>, with the message alone.
\<close>

definition wrap :: "python \<Rightarrow> val \<Rightarrow> exc \<Rightarrow> exc" where
  "wrap py x e =
     (case shorten (exc_str e) of
        None \<Rightarrow> Exc AttributeError
          (quoted (ascii ''NoneType'') @ ascii '' object has no attribute '' @ quoted (ascii ''group''))
      | Some msg \<Rightarrow>
          (case head_str py x of
             Inr h \<Rightarrow> Exc CustomCommandSyntaxError (ascii ''('' @ h @ ascii ''): '' @ msg)
           | Inl ie \<Rightarrow>
               if exc_kind ie = IndexError then Exc CustomCommandSyntaxError msg else ie))"

section \<open>The evaluator\<close>

text \<open>The names of the special forms, as \<open>rs_lisp.py\<close> defines them.\<close>

definition k_args :: pystr where "k_args = ascii ''args''"
definition k_quote :: pystr where "k_quote = ascii ''quote''"
definition k_if :: pystr where "k_if = ascii ''if''"
definition k_set :: pystr where "k_set = ascii '':=''"
definition k_define :: pystr where "k_define = ascii ''define''"
definition k_def :: pystr where "k_def = ascii ''def''"
definition k_lambda :: pystr where "k_lambda = ascii ''lambda''"
definition k_unquote :: pystr where "k_unquote = ascii ''unquote''"
definition k_checkexpect :: pystr where "k_checkexpect = ascii ''check-expect''"
definition k_checkwithin :: pystr where "k_checkwithin = ascii ''check-within''"
definition k_member :: pystr where "k_member = ascii ''member?''"
definition k_struct :: pystr where "k_struct = ascii ''struct''"
definition k_access :: pystr where "k_access = ascii ''>>''"
definition k_while :: pystr where "k_while = ascii ''while''"
definition k_print :: pystr where "k_print = ascii ''print''"
definition k_try :: pystr where "k_try = ascii ''try''"

text \<open>
  \<open>lisp_eval\<close> calls itself; in the definitions below \<open>ev\<close> stands for that call
  (\<open>ev x env\<close> for \<open>lisp_eval(x, env)\<close>), and the knot is tied at the end with fuel: one
  unit for every nested call, and for every turn of a \<open>while\<close> loop.
\<close>

type_synonym evaluator = "val \<Rightarrow> nat \<Rightarrow> state \<Rightarrow> val res"

definition raise :: "exc \<Rightarrow> state \<Rightarrow> 'a res" where
  "raise e st = Some (Raise e, st)"

definition ret :: "'a \<Rightarrow> state \<Rightarrow> 'a res" where
  "ret v st = Some (Ret v, st)"

definition lift :: "'a outcome \<Rightarrow> state \<Rightarrow> 'a res" where
  "lift r st = Some (r, st)"

fun eval_seq :: "('a \<Rightarrow> state \<Rightarrow> val res) \<Rightarrow> 'a list \<Rightarrow> state \<Rightarrow> val list res" where
  "eval_seq f [] st = ret [] st"
| "eval_seq f (x # xs) st =
     bind (f x st) (\<lambda>v st'. bind (eval_seq f xs st') (\<lambda>vs. ret (v # vs)))"

text \<open>One index of a name \<open>l:i:j\<close>: \<open>int(x) if x.isdigit() else lisp_eval(x, env)\<close>.\<close>

definition index_value :: "python \<Rightarrow> evaluator \<Rightarrow> nat \<Rightarrow> pystr \<Rightarrow> state \<Rightarrow> val res" where
  "index_value py ev env part st =
     (if py_isdigit py part then
        (case py_int py part of
           Some i \<Rightarrow> ret (VInt i) st
         | None \<Rightarrow> raise (Exc ValueError
             (ascii ''invalid literal for int() with base 10: '' @ quoted part)) st)
      else ev (VStr part) env st)"

text \<open>The branch of a symbol: the indices first, then \<open>_lget(env.find(l)[l], *ind)\<close>.\<close>

definition eval_symbol :: "python \<Rightarrow> evaluator \<Rightarrow> pystr \<Rightarrow> nat \<Rightarrow> state \<Rightarrow> val res" where
  "eval_symbol py ev x env st =
     (let parts = split_on 58 x; l = hd parts; ind = tl parts
      in bind (eval_seq (index_value py ev env) ind st)
           (\<lambda>idx st'. case lookup st' env l of
                         Inl e \<Rightarrow> raise e st'
                       | Inr v \<Rightarrow> lift (lget py v idx) st'))"

text \<open>The \<open>args\<close> form; \<open>rest\<close> is \<open>x[1:]\<close>, not evaluated.\<close>

definition swallow_index_error :: "val \<Rightarrow> val outcome \<Rightarrow> val outcome" where
  "swallow_index_error d r =
     (case r of
        Raise e \<Rightarrow> if exc_kind e = IndexError then Ret d else Raise e
      | _ \<Rightarrow> r)"

definition form_args :: "python \<Rightarrow> val list \<Rightarrow> nat \<Rightarrow> state \<Rightarrow> val res" where
  "form_args py rest env st =
     (case lookup st env (ascii ''argstring'') of
        Inl e \<Rightarrow> raise e st
      | Inr argstring \<Rightarrow>
          (case lookup st env (ascii ''args'') of
             Inl e \<Rightarrow> raise e st
           | Inr arglist \<Rightarrow>
               (case rest of
                  [] \<Rightarrow> ret argstring st
                | [a] \<Rightarrow>
                    if a = VStr [42] then ret arglist st
                    else lift (swallow_index_error VNone (py_getitem py arglist a)) st
                | a # b # others \<Rightarrow>
                    lift (swallow_index_error (VList [])
                      (if a = VStr [42] then py_slice py arglist None (Some b)
                       else if b = VStr [42] then py_slice py arglist (Some a) None
                       else py_slice py arglist (Some a) (Some b))) st)))"

text \<open>
  \<open>make_functions(name, param, env)\<close>: the position of every field under
  \<open>name-field-pos\<close>, the accessor under \<open>name-pos\<close>, the predicate under \<open>name?\<close> and the
  number of fields under \<open>make-name\<close>. The predicate keeps the name \<open>make-name\<close>, which it
  evaluates when it is called.
\<close>

fun pos_keys :: "python \<Rightarrow> pystr \<Rightarrow> val list \<Rightarrow> exc + pystr list" where
  "pos_keys py name [] = Inr []"
| "pos_keys py name (par # ps) =
     (case par of
        VStr p \<Rightarrow>
          (case pos_keys py name ps of
             Inl e \<Rightarrow> Inl e
           | Inr ks \<Rightarrow> Inr ((name @ ascii ''-'' @ p @ ascii ''-pos'') # ks))
      | _ \<Rightarrow> Inl (Exc TypeError (ascii ''can only concatenate str (not '' @ [34] @
                 type_of py par @ [34] @ ascii '') to str'')))"

definition make_functions :: "python \<Rightarrow> val \<Rightarrow> val \<Rightarrow> nat \<Rightarrow> state \<Rightarrow> val res" where
  "make_functions py name param env st =
     (case name of
        VStr nm \<Rightarrow>
          (let create = ascii ''make-'' @ nm; check = nm @ ascii ''?''
           in case py_iter py param of
                Inl e \<Rightarrow> raise e st
              | Inr ps \<Rightarrow>
                  (case pos_keys py nm ps of
                     Inl e \<Rightarrow> raise e st
                   | Inr key_array \<Rightarrow>
                       (let d0 = vars (heap st env);
                            d1 = foldl (\<lambda>d (k, i). dict_set k (VInt (int i)) d) d0
                                   (zip key_array [0..<length ps]);
                            d2 = dict_set (nm @ ascii ''-pos'') VStructPos d1;
                            d3 = dict_set check (VStructCheck create) d2;
                            d4 = dict_set create (VInt (int (length ps))) d3
                        in ret VNone
                             (st\<lparr>heap := (heap st)(env := (heap st env)\<lparr>vars := d4\<rparr>)\<rparr>))))
      | _ \<Rightarrow> raise (Exc TypeError (ascii ''can only concatenate str (not '' @ [34] @
                 type_of py name @ [34] @ ascii '') to str'')) st)"

definition arity_error :: "pystr list \<Rightarrow> nat \<Rightarrow> exc" where
  "arity_error names given =
     (let n = length names
      in if n < given
         then Exc TypeError (ascii ''<lambda>() takes '' @ str_of_nat n @
                ascii '' positional argument'' @ (if n = 1 then [] else ascii ''s'') @ ascii '' but '' @
                str_of_nat given @ (if given = 1 then ascii '' was'' else ascii '' were'') @ ascii '' given'')
         else
           (let missing = drop given names; m = length missing;
                listed = (case rev (map quoted missing) of
                            [] \<Rightarrow> []
                          | [a] \<Rightarrow> a
                          | [b, a] \<Rightarrow> a @ ascii '' and '' @ b
                          | b # earlier \<Rightarrow>
                              concat (map (\<lambda>a. a @ ascii '', '') (rev earlier)) @ ascii ''and '' @ b)
            in Exc TypeError (ascii ''<lambda>() missing '' @ str_of_nat m @
                 ascii '' required positional argument'' @ (if m = 1 then [] else ascii ''s'') @
                 ascii '': '' @ listed)))"

text \<open>
  \<open>proc(*args)\<close>. A \<open>Procedure\<close> evaluates its body in \<open>Env(self.parms, args, self.env)\<close>.
  The accessor of a struct is \<open>lambda arr, index: arr[index]\<close>; the predicate is
  \<open>lambda arr: len(arr) == lisp_eval(create)\<close>, where \<open>lisp_eval\<close> is called without an
  environment and so with its default, the module's \<open>global_env\<close>.
\<close>

definition apply_proc :: "python \<Rightarrow> evaluator \<Rightarrow> val \<Rightarrow> val list \<Rightarrow> state \<Rightarrow> val res" where
  "apply_proc py ev proc args st =
     (case proc of
        VProc parms body penv \<Rightarrow>
          (case new_env py parms args (Some penv) st of
             Inl e \<Rightarrow> raise e st
           | Inr (a, st') \<Rightarrow> ev body a st')
      | VBuiltin name \<Rightarrow> lift (of_sum (py_builtin py name args)) st
      | VStructPos \<Rightarrow>
          (case args of
             [arr, index] \<Rightarrow> lift (py_getitem py arr index) st
           | _ \<Rightarrow> raise (arity_error [ascii ''arr'', ascii ''index''] (length args)) st)
      | VStructCheck create \<Rightarrow>
          (case args of
             [arr] \<Rightarrow>
               (case py_len py arr of
                  Inl e \<Rightarrow> raise e st
                | Inr n \<Rightarrow>
                    bind (ev (VStr create) global_env st)
                      (\<lambda>v. ret (VBool (py_eq py (VInt (int n)) v))))
           | _ \<Rightarrow> raise (arity_error [ascii ''arr''] (length args)) st)
      | _ \<Rightarrow> raise (Exc TypeError (quoted (type_of py proc) @ ascii '' object is not callable'')) st)"

text \<open>\<open>while lisp_eval(x[1], env): lisp_eval(x[2], env)\<close>, on the whole form \<open>x\<close>.\<close>

fun while_loop :: "nat \<Rightarrow> evaluator \<Rightarrow> val list \<Rightarrow> nat \<Rightarrow> state \<Rightarrow> val res" where
  "while_loop 0 ev x env st = None"
| "while_loop (Suc k) ev x env st =
     (if length x < 2 then raise (Exc IndexError (ascii ''list index out of range'')) st
      else
        bind (ev (x ! 1) env st)
          (\<lambda>t st'. if py_truth t then
                      (if length x < 3
                       then raise (Exc IndexError (ascii ''list index out of range'')) st'
                       else bind (ev (x ! 2) env st') (\<lambda>b st''. while_loop k ev x env st''))
                    else ret VNone st'))"

text \<open>
  The \<open>print\<close> form. The target of \<open>+=\<close> is read first, then the arguments are evaluated
  and joined, then the sum is stored where the target was found. An \<open>IndexError\<close> from the
  arguments adds a newline alone. Only a string in \<open>output\<close> is modelled.
\<close>

definition append_output :: "nat \<Rightarrow> val \<Rightarrow> pystr \<Rightarrow> state \<Rightarrow> val res" where
  "append_output a cur text st =
     (case cur of
        VStr s \<Rightarrow>
          ret VNone (st\<lparr>heap := (heap st)(a := (heap st a)
            \<lparr>vars := dict_set (ascii ''output'') (VStr (s @ text)) (vars (heap st a))\<rparr>)\<rparr>)
      | _ \<Rightarrow> lift Unmodelled st)"

definition print_newline :: "nat \<Rightarrow> state \<Rightarrow> val res" where
  "print_newline env st =
     (case find st env (ascii ''output'') of
        Inl e \<Rightarrow> raise e st
      | Inr a \<Rightarrow>
          (case map_of (vars (heap st a)) (ascii ''output'') of
             None \<Rightarrow> raise (Exc CustomCommandSyntaxError (ascii ''undefined var output'')) st
           | Some cur \<Rightarrow> append_output a cur [10] st))"

definition form_print :: "python \<Rightarrow> evaluator \<Rightarrow> val list \<Rightarrow> nat \<Rightarrow> state \<Rightarrow> val res" where
  "form_print py ev rest env st =
     (case find st env (ascii ''output'') of
        Inl e \<Rightarrow> raise e st
      | Inr a \<Rightarrow>
          (case map_of (vars (heap st a)) (ascii ''output'') of
             None \<Rightarrow> raise (Exc CustomCommandSyntaxError (ascii ''undefined var output'')) st
           | Some cur \<Rightarrow>
               (case eval_seq (\<lambda>y. ev y env) rest st of
                  None \<Rightarrow> None
                | Some (Ret vs, st') \<Rightarrow>
                    (case str_join [32] (map (\<lambda>v. VStr (to_str py v)) vs) of
                       Inl e \<Rightarrow> raise e st'
                     | Inr line \<Rightarrow> append_output a cur (line @ [10]) st')
                | Some (Raise e, st') \<Rightarrow>
                    if exc_kind e = IndexError then print_newline env st' else raise e st'
                | Some (Unmodelled, st') \<Rightarrow> lift Unmodelled st')))"

text \<open>
  The \<open>:=\<close> form. The value is evaluated before the binding is looked for. A name with
  an index changes a list in place and is not modelled.
\<close>

definition form_set :: "python \<Rightarrow> evaluator \<Rightarrow> val \<Rightarrow> val \<Rightarrow> nat \<Rightarrow> state \<Rightarrow> val res" where
  "form_set py ev var ex env st =
     (case var of
        VStr s \<Rightarrow>
          if 58 \<in> set s then lift Unmodelled st
          else
            bind (ev ex env st)
              (\<lambda>v st'. case find st' env s of
                          Inl e \<Rightarrow> raise e st'
                        | Inr a \<Rightarrow> set_item a (VStr s) v st')
      | VList l \<Rightarrow>
          if VStr [58] \<in> set l
          then raise (Exc AttributeError
                 (quoted (ascii ''list'') @ ascii '' object has no attribute '' @ quoted (ascii ''split''))) st
          else
            bind (ev ex env st)
              (\<lambda>v. raise (Exc TypeError (ascii ''unhashable type: '' @ quoted (ascii ''list''))))
      | _ \<Rightarrow> raise (Exc TypeError
               (ascii ''argument of type '' @ quoted (type_of py var) @ ascii '' is not iterable'')) st)"

text \<open>
  The call of \<open>make-name\<close>: \<open>proc\<close> is the number of fields, the arguments are \<open>x[2:]\<close>, and
  with the right number of them the list is bound to \<open>x[1]\<close> in the current environment.
\<close>

definition form_make :: "python \<Rightarrow> evaluator \<Rightarrow> val \<Rightarrow> val list \<Rightarrow> nat \<Rightarrow> state \<Rightarrow> val res" where
  "form_make py ev proc rest env st =
     bind (eval_seq (\<lambda>arg. ev arg env) (drop 1 rest) st)
       (\<lambda>args st'.
          if \<not> py_eq py (VInt (int (length args))) proc then ret VNone st'
          else
            (case rest of
               [] \<Rightarrow> raise (Exc IndexError (ascii ''list index out of range'')) st'
             | name # others \<Rightarrow> set_item env name (VList args) st'))"

text \<open>
  The body of the \<open>try\<close> statement of \<open>lisp_eval\<close> on a list \<open>x\<close> with head \<open>h\<close> and the
  rest \<open>rest\<close>. The \<open>>>\<close> form calls a method of a Python object by its name and is not
  modelled.
\<close>

definition eval_form ::
    "nat \<Rightarrow> python \<Rightarrow> evaluator \<Rightarrow> val \<Rightarrow> val list \<Rightarrow> nat \<Rightarrow> state \<Rightarrow> val res" where
  "eval_form k py ev h rest env st =
     (if h = VStr k_args then form_args py rest env st
      else if h = VStr k_quote then
        (case rest of
           [ex] \<Rightarrow> ret ex st
         | _ \<Rightarrow> raise (unpack_error 2 (Suc (length rest))) st)
      else if h = VStr k_access then lift Unmodelled st
      else if h = VStr k_if then
        (case rest of
           [test, conseq, alt] \<Rightarrow>
             bind (ev test env st) (\<lambda>t. ev (if py_truth t then conseq else alt) env)
         | _ \<Rightarrow> raise (unpack_error 4 (Suc (length rest))) st)
      else if h = VStr k_define \<or> h = VStr k_def then
        (case rest of
           [var, ex] \<Rightarrow> bind (ev ex env st) (\<lambda>v. set_item env var v)
         | _ \<Rightarrow> raise (unpack_error 3 (Suc (length rest))) st)
      else if h = VStr k_set then
        (case rest of
           [var, ex] \<Rightarrow> form_set py ev var ex env st
         | _ \<Rightarrow> raise (unpack_error 3 (Suc (length rest))) st)
      else if h = VStr k_lambda then
        (case rest of
           [parms, body] \<Rightarrow> ret (VProc parms body env) st
         | _ \<Rightarrow> raise (unpack_error 3 (Suc (length rest))) st)
      else if h = VStr k_checkexpect then
        (case rest of
           [var, ex] \<Rightarrow>
             bind (ev var env st) (\<lambda>a st'.
               bind (ev ex env st') (\<lambda>b. ret (VBool (py_eq py a b))))
         | _ \<Rightarrow> raise (unpack_error 3 (Suc (length rest))) st)
      else if h = VStr k_checkwithin then
        (case rest of
           [var, lower_bound, upper_bound] \<Rightarrow>
             bind (ev var env st) (\<lambda>a st1.
               bind (ev upper_bound env st1) (\<lambda>u st2.
                 case py_le py a u of
                   Inl e \<Rightarrow> raise e st2
                 | Inr c \<Rightarrow>
                     if \<not> py_truth c then ret c st2
                     else
                       bind (ev var env st2) (\<lambda>a' st3.
                         bind (ev lower_bound env st3) (\<lambda>l. lift (of_sum (py_ge py a' l))))))
         | _ \<Rightarrow> raise (unpack_error 4 (Suc (length rest))) st)
      else if h = VStr k_member then
        (case rest of
           [var, lst] \<Rightarrow>
             bind (ev var env st) (\<lambda>a st'.
               bind (ev lst env st') (\<lambda>l.
                 lift (case py_contains py l a of Inl e \<Rightarrow> Raise e | Inr b \<Rightarrow> Ret (VBool b))))
         | _ \<Rightarrow> raise (unpack_error 3 (Suc (length rest))) st)
      else if h = VStr k_struct then
        (case rest of
           [name, params] \<Rightarrow> make_functions py name params env st
         | _ \<Rightarrow> raise (unpack_error 3 (Suc (length rest))) st)
      else if h = VStr k_while then while_loop k ev (h # rest) env st
      else if h = VStr k_print then form_print py ev rest env st
      else if h = VStr k_try then
        (case rest of
           [] \<Rightarrow> raise (Exc ValueError
                  (ascii ''not enough values to unpack (expected at least 1, got 0)'')) st
         | expr # args \<Rightarrow>
             (case ev expr env st of
                None \<Rightarrow> None
              | Some (Ret v, st') \<Rightarrow> ret v st'
              | Some (Raise e, st') \<Rightarrow>
                  (case args of
                     [] \<Rightarrow> ret (VExc e) st'
                   | alt # others \<Rightarrow> ev alt env st')
              | Some (Unmodelled, st') \<Rightarrow> lift Unmodelled st'))
      else if h = VStr k_unquote then
        (case rest of
           [] \<Rightarrow> raise (Exc IndexError (ascii ''list index out of range'')) st
         | e # others \<Rightarrow> bind (ev e env st) (\<lambda>v. ev v env))
      else
        bind (ev h env st)
          (\<lambda>proc st'.
             if (case h of VStr s \<Rightarrow> take 5 s = ascii ''make-'' | _ \<Rightarrow> False)
             then form_make py ev proc rest env st'
             else bind (eval_seq (\<lambda>arg. ev arg env) rest st') (apply_proc py ev proc)))"

definition dispatch :: "nat \<Rightarrow> python \<Rightarrow> evaluator \<Rightarrow> val \<Rightarrow> nat \<Rightarrow> state \<Rightarrow> val res" where
  "dispatch k py ev x env st =
     (case x of
        VStr s \<Rightarrow> eval_symbol py ev s env st
      | VList l \<Rightarrow>
          (case l of
             [] \<Rightarrow> raise (Exc IndexError (ascii ''list index out of range'')) st
           | h # rest \<Rightarrow> eval_form k py ev h rest env st)
      | _ \<Rightarrow> ret x st)"

text \<open>
  The test at the entry of \<open>lisp_eval\<close>: \<open>time()\<close> is read only when the budget of the
  environment at hand is not 0.
\<close>

definition entry_check :: "nat \<Rightarrow> state \<Rightarrow> bool \<times> state" where
  "entry_check env st =
     (if max_runtime (heap st env) \<noteq> 0 then
        (case time_now st of
           (t, st') \<Rightarrow> (max_runtime (heap st env) < t - timestamp (heap st env), st'))
      else (False, st))"

definition timeout_error :: exc where
  "timeout_error = Exc CustomCommandSyntaxError (ascii ''The command ran too long.'')"

text \<open>One call of \<open>lisp_eval\<close>: the test of the budget, then the \<open>try\<close> and its handler.\<close>

definition eval_step :: "nat \<Rightarrow> python \<Rightarrow> evaluator \<Rightarrow> val \<Rightarrow> nat \<Rightarrow> state \<Rightarrow> val res" where
  "eval_step k py ev x env st =
     (case entry_check env st of
        (True, st') \<Rightarrow> raise timeout_error st'
      | (False, st') \<Rightarrow>
          (case dispatch k py ev x env st' of
             None \<Rightarrow> None
           | Some (Raise e, st'') \<Rightarrow> raise (wrap py x e) st''
           | Some r \<Rightarrow> Some r))"

primrec lisp_eval :: "nat \<Rightarrow> python \<Rightarrow> evaluator" where
  "lisp_eval 0 py = (\<lambda>x env st. None)"
| "lisp_eval (Suc k) py = eval_step k py (lisp_eval k py)"

declare lisp_eval.simps(2) [simp del]

section \<open>States for running the model\<close>

text \<open>
  A root environment as \<open>standard_env\<close> makes it, cut down to the two names the examples
  use (\<open>+\<close> and \<open>output\<close>), with a budget; an environment with no binding, as \<open>Env()\<close>
  makes it; a state with the root at the address of \<open>global_env\<close> and empty environments
  elsewhere; and that state with a child of the root at address 1.
\<close>

definition root_env :: "rat \<Rightarrow> env" where
  "root_env budget =
     \<lparr>vars = [([43], VBuiltin [43]), (ascii ''output'', VStr [])], other_keys = False,
      outer = None, timestamp = 0, max_runtime = budget\<rparr>"

definition blank_env :: env where
  "blank_env = \<lparr>vars = [], other_keys = False, outer = None, timestamp = 0, max_runtime = 0\<rparr>"

definition start_state :: "rat \<Rightarrow> (nat \<Rightarrow> rat) \<Rightarrow> state" where
  "start_state budget ticks =
     \<lparr>heap = (\<lambda>a. blank_env)(global_env := root_env budget), next_env = 1,
      clock = ticks, reads = 0\<rparr>"


section \<open>The states the evaluator builds\<close>

text \<open>
  The state after \<open>Env(parms, args, outer)\<close> for a list of names \<open>parms\<close>: one reading
  of the clock, and the new environment at the next address (lemma \<open>new_env_names\<close>).
\<close>

definition frame :: "pystr list \<Rightarrow> val list \<Rightarrow> nat \<Rightarrow> state \<Rightarrow> state" where
  "frame names args D st =
     st\<lparr>reads := Suc (reads st),
        heap := (heap st)(next_env st :=
          \<lparr>vars = foldl (\<lambda>d (k, v). dict_set k v d) [] (zip names args), other_keys = False,
           outer = Some D, timestamp = clock st (reads st), max_runtime = 0\<rparr>),
        next_env := Suc (next_env st)\<rparr>"

text \<open>
  The dictionary after \<open>make_functions(name, param, env)\<close> for a list of names \<open>param\<close>,
  and the state with it (lemma \<open>make_functions_names\<close>).
\<close>

definition struct_vars :: "pystr \<Rightarrow> pystr list \<Rightarrow> (pystr \<times> val) list \<Rightarrow> (pystr \<times> val) list" where
  "struct_vars nm flds d0 =
     dict_set (ascii ''make-'' @ nm) (VInt (int (length flds)))
       (dict_set (nm @ ascii ''?'') (VStructCheck (ascii ''make-'' @ nm))
         (dict_set (nm @ ascii ''-pos'') VStructPos
           (foldl (\<lambda>d (k, i). dict_set k (VInt (int i)) d) d0
              (zip (map (\<lambda>p. nm @ ascii ''-'' @ p @ ascii ''-pos'') flds) [0..<length flds]))))"

definition declared :: "pystr \<Rightarrow> pystr list \<Rightarrow> nat \<Rightarrow> state \<Rightarrow> state" where
  "declared nm flds env st =
     st\<lparr>heap := (heap st)(env := (heap st env)\<lparr>vars := struct_vars nm flds (vars (heap st env))\<rparr>)\<rparr>"




definition spent :: "nat \<Rightarrow> state \<Rightarrow> nat \<Rightarrow> bool" where
  "spent env st i = (max_runtime (heap st env) < clock st i - timestamp (heap st env))"

fun run_forms :: "nat \<Rightarrow> python \<Rightarrow> val list \<Rightarrow> nat \<Rightarrow> state \<Rightarrow> val res" where
  "run_forms k py [] env st = Some (Ret VNone, st)"
| "run_forms k py [x] env st = lisp_eval k py x env st"
| "run_forms k py (x # y # xs) env st =
     (case lisp_eval k py x env st of
        Some (Ret v, st') \<Rightarrow> run_forms k py (y # xs) env st'
      | r \<Rightarrow> r)"

section \<open>Properties of the escaper\<close>






lemma l_escape_unfold:
  "l_escape s = str_replace_scan [92, 110] [0xFF02]
     (str_replace_scan [92, 34] [0xFF01] (str_replace_scan [92, 92] [0xFF00] s))"
  by (simp add: l_escape_def escapes_def str_replace_def)









section \<open>Properties of transcode\<close>

lemma foldl_upd_map_of:
  "foldl (\<lambda>m (a, b). m(a \<mapsto> b)) m xs = m ++ map_of (rev xs)"
  by (induction xs arbitrary: m) auto

lemma maketrans_eq:
  "length x = length y \<Longrightarrow> maketrans x y = Inr (map_of (rev (zip x y)))"
  by (simp add: maketrans_def foldl_upd_map_of)

lemma trans_back:
  assumes len: "length A = length B" and dB: "distinct B"
    and f: "map_of (rev (zip A B)) c = Some b"
  shows "map_of (rev (zip B A)) b = Some c"
proof -
  from f have "(c, b) \<in> set (zip A B)"
    using map_of_SomeD by fastforce
  then have "(b, c) \<in> set (zip B A)"
    by (auto simp add: in_set_zip)
  then have mem: "(b, c) \<in> set (rev (zip B A))" by simp
  from len dB have "distinct (map fst (rev (zip B A)))"
    by (simp add: rev_map [symmetric])
  with mem show ?thesis by (rule_tac map_of_is_SomeI)
qed

lemma trans_none:
  assumes len: "length A = length B" and f: "map_of (rev (zip A B)) c = None"
  shows "c \<notin> set A"
proof -
  from f have "c \<notin> fst ` set (rev (zip A B))" by (simp add: map_of_eq_None_iff)
  with len show ?thesis by (simp add: set_zip_leftD image_iff) (metis fst_conv in_set_impl_in_set_zip1)
qed

lemma trans_none_back:
  assumes len: "length A = length B" and "c \<notin> set B"
  shows "map_of (rev (zip B A)) c = None"
  using assms by (auto simp add: map_of_eq_None_iff dest: set_zip_leftD)

lemma translate_roundtrip:
  assumes len: "length A = length B" and dB: "distinct B"
    and s: "\<forall>c\<in>set s. c \<in> set B \<longrightarrow> c \<in> set A"
  shows "translate (map_of (rev (zip B A))) (translate (map_of (rev (zip A B))) s) = s"
proof -
  have "(case map_of (rev (zip B A)) (case map_of (rev (zip A B)) c of None \<Rightarrow> c | Some d \<Rightarrow> d)
          of None \<Rightarrow> (case map_of (rev (zip A B)) c of None \<Rightarrow> c | Some d \<Rightarrow> d) | Some d \<Rightarrow> d) = c"
    if "c \<in> set s" for c
  proof (cases "map_of (rev (zip A B)) c")
    case None
    with len have "c \<notin> set A" by (rule trans_none)
    with s that have "c \<notin> set B" by blast
    with len have "map_of (rev (zip B A)) c = None" by (rule trans_none_back)
    with None show ?thesis by simp
  next
    case (Some b)
    with len dB have "map_of (rev (zip B A)) b = Some c" by (rule trans_back)
    with Some show ?thesis by simp
  qed
  then show ?thesis
    unfolding translate_def by (simp add: map_idI)
qed

text \<open>
  Claim C7, as amended. With two mapping strings of equal length, of which the second
  has no repeated character, and a string none of whose characters occurs in the second
  mapping string without occurring in the first, \<open>transcode\<close> there and back gives the
  string again. With mapping strings of unequal length \<open>transcode\<close> raises
  \<open>CustomCommandSyntaxError\<close>.
\<close>

theorem transcode_roundtrip:
  "(length A = length B \<and> distinct B \<and> (\<forall>c\<in>set s. c \<in> set B \<longrightarrow> c \<in> set A) \<longrightarrow>
      (\<exists>t. transcode py s [A, B] = Inr t \<and> transcode py t [B, A] = Inr s)) \<and>
   (length A \<noteq> length B \<longrightarrow>
      transcode py s (A # B # others) = Inl (Exc CustomCommandSyntaxError
        (ascii ''transcode: To and From transcoding patterns must be the same length.'')))"
proof (intro conjI impI)
  assume h: "length A = length B \<and> distinct B \<and> (\<forall>c\<in>set s. c \<in> set B \<longrightarrow> c \<in> set A)"
  then have len: "length A = length B" and len': "length B = length A" by simp_all
  have 1: "transcode py s [A, B] = Inr (translate (map_of (rev (zip A B))) s)"
    using len by (simp add: transcode_def translate_with_def maketrans_eq)
  have 2: "transcode py (translate (map_of (rev (zip A B))) s) [B, A] = Inr s"
    using len h by (simp add: transcode_def translate_with_def maketrans_eq [OF len'] translate_roundtrip)
  from 1 2 show "\<exists>t. transcode py s [A, B] = Inr t \<and> transcode py t [B, A] = Inr s"
    by simp
next
  assume "length A \<noteq> length B"
  then show "transcode py s (A # B # others) = Inl (Exc CustomCommandSyntaxError
        (ascii ''transcode: To and From transcoding patterns must be the same length.''))"
    by (simp add: transcode_def)
qed

text \<open>The theorem at the mappings \<open>abc\<close> to \<open>xyz\<close> and \<open>abc\<close> to \<open>xy\<close>, on the string \<open>cab\<close>.\<close>

theorem transcode_roundtrip_witness:
  "(\<exists>t. transcode py0 (ascii ''cab'') [ascii ''abc'', ascii ''xyz''] = Inr t \<and>
        transcode py0 t [ascii ''xyz'', ascii ''abc''] = Inr (ascii ''cab'')) \<and>
   transcode py0 (ascii ''cab'') [ascii ''abc'', ascii ''xy''] = Inl (Exc CustomCommandSyntaxError
        (ascii ''transcode: To and From transcoding patterns must be the same length.''))"
  using transcode_roundtrip [of "ascii ''abc''" "ascii ''xyz''" "ascii ''cab''" py0 "[]"]
    transcode_roundtrip [of "ascii ''abc''" "ascii ''xy''" "ascii ''cab''" py0 "[]"]
  by (simp add: ascii_def)

text \<open>
  Claim C7 as stated fails for the string \<open>b\<close> with the mapping \<open>a\<close> to \<open>b\<close>: the way there
  leaves \<open>b\<close> as it is, and the way back turns it into \<open>a\<close>.
\<close>

theorem transcode_roundtrip_counterexample:
  "\<not> (\<forall>s A B. length A = length B \<longrightarrow>
        (\<exists>t. transcode py0 s [A, B] = Inr t \<and> transcode py0 t [B, A] = Inr s))"
proof
  assume "\<forall>s A B. length A = length B \<longrightarrow>
        (\<exists>t. transcode py0 s [A, B] = Inr t \<and> transcode py0 t [B, A] = Inr s)"
  then have "length [97::nat] = length [98::nat] \<longrightarrow>
        (\<exists>t. transcode py0 [98] [[97], [98]] = Inr t \<and> transcode py0 t [[98], [97]] = Inr [98])"
    by blast
  moreover have "transcode py0 [98] [[97], [98]] = Inr [98]"
    by (simp add: transcode_def translate_with_def maketrans_def translate_def)
  moreover have "transcode py0 [98] [[98], [97]] = Inr [97]"
    by (simp add: transcode_def translate_with_def maketrans_def translate_def)
  ultimately show False by simp
qed

section \<open>Properties of the tokenizer\<close>


lemma takeWhile_append_stop:
  "\<not> P x \<Longrightarrow> takeWhile P (cs @ x # t) = takeWhile P cs"
  by (induction cs) auto

lemma dropWhile_append_stop:
  "\<not> P x \<Longrightarrow> dropWhile P (cs @ x # t) = dropWhile P cs @ x # t"
  by (induction cs) auto

lemma count_dropWhile_bare:
  "count_list (dropWhile bare cs) 34 = count_list cs 34"
  by (induction cs) (auto simp add: bare_def)

lemma count_after_quote:
  "34 \<in> set cs \<Longrightarrow> Suc (count_list (tl (dropWhile (\<lambda>d. d \<noteq> 34) cs)) 34) = count_list cs 34"
  by (induction cs) auto

lemma tl_dropWhile_append:
  "34 \<in> set cs \<Longrightarrow>
    tl (dropWhile (\<lambda>d. d \<noteq> (34::nat)) (cs @ ys)) = tl (dropWhile (\<lambda>d. d \<noteq> 34) cs) @ ys"
  by (induction cs) auto

lemma takeWhile_append_in:
  "34 \<in> set cs \<Longrightarrow>
    takeWhile (\<lambda>d. d \<noteq> (34::nat)) (cs @ ys) = takeWhile (\<lambda>d. d \<noteq> 34) cs"
  by (induction cs) auto

lemma count_pos_mem: "0 < count_list cs x \<Longrightarrow> x \<in> set cs"
  by (induction cs) (auto split: if_splits)

lemma findall_lone_quote:
  "even (count_list u 34) \<Longrightarrow> 34 \<notin> set t \<Longrightarrow>
     findall_tokens (u @ 34 # t) = findall_tokens (u @ 32 # t)"
proof (induction u rule: findall_tokens.induct)
  case 1
  then show ?case by simp
next
  case (2 c cs)
  show ?case
  proof (cases "c = 34")
    case True
    with "2.prems" have odd: "odd (count_list cs 34)" by simp
    then have "0 < count_list cs 34" by (cases "count_list cs 34") auto
    then have mem: "34 \<in> set cs" by (rule count_pos_mem)
    from count_after_quote [OF mem] odd
    have ev: "even (count_list (tl (dropWhile (\<lambda>d. d \<noteq> 34) cs)) 34)"
      by (metis even_Suc)
    from "2.IH"(1) [OF True mem ev "2.prems"(2)] True mem show ?thesis
      by (simp add: tl_dropWhile_append takeWhile_append_in)
  next
    case nq: False
    show ?thesis
    proof (cases "c = 40 \<or> c = 41")
      case True
      with nq "2.prems" "2.IH"(3) show ?thesis by auto
    next
      case np: False
      show ?thesis
      proof (cases "c = 32")
        case True
        with nq np "2.prems" "2.IH"(4) show ?thesis by auto
      next
        case False
        have nb: "\<not> bare 34" "\<not> bare 32" by (simp_all add: bare_def)
        from nq "2.prems" have "even (count_list (dropWhile bare cs) 34)"
          by (simp add: count_dropWhile_bare)
        from "2.IH"(5) [OF nq np False this "2.prems"(2)] nq np False show ?thesis
          by (simp add: takeWhile_append_stop [of bare, OF nb(1)]
              takeWhile_append_stop [of bare, OF nb(2)]
              dropWhile_append_stop [of bare, OF nb(1)]
              dropWhile_append_stop [of bare, OF nb(2)])
      qed
    qed
  qed
qed

text \<open>
  Claim C8, as amended. A double quote with no later double quote matches no alternative
  of the token pattern: the tokenizer passes over it as it passes over a space, and the
  reader never sees it. When the escaped text is \<open>u\<close>, a quote, \<open>t\<close>, with the quotes of \<open>u\<close>
  paired and no quote in \<open>t\<close>, the tokens are those of the text with a space in the place
  of the quote; nothing is raised for the unterminated quote.
\<close>

theorem unterminated_quote_skipped:
  assumes "l_escape s = u @ 34 # t" and "even (count_list u 34)" and "34 \<notin> set t"
  shows "tokenize s = findall_tokens (u @ 32 # t)"
  using assms by (simp add: tokenize_def findall_lone_quote)

text \<open>The theorem at the text quote, \<open>abc\<close>.\<close>

theorem unterminated_quote_skipped_witness:
  "tokenize (34 # ascii ''abc'') = [ascii ''abc'']"
  using unterminated_quote_skipped [of "34 # ascii ''abc''" "[]" "ascii ''abc''"]
  by (simp add: l_escape_unfold ascii_def bare_def)

text \<open>
  Claim C8 as stated fails at the text quote, \<open>abc\<close>: the quote is never closed, and
  \<open>parse\<close> returns the symbol \<open>abc\<close>.
\<close>

theorem unterminated_quote_counterexample:
  "parse py0 (34 # ascii ''abc'') = Inr (VStr (ascii ''abc''))"
  by (simp add: parse_def tokenize_def l_escape_unfold ascii_def bare_def is_quoted_def
      atom_def strip_def py0_def ascii_int_def ascii_digit_def ascii_bool_def ascii_lower_def
      ascii_isspace_def)

section \<open>Properties of the reader\<close>

lemma read_append:
  "read_from_tokens py ts = Inr (v, rest) \<Longrightarrow>
     read_from_tokens py (ts @ extra) = Inr (v, rest @ extra)"
  "read_list py l ts = Inr (l', rest') \<Longrightarrow>
     read_list py l (ts @ extra) = Inr (l', rest' @ extra)"
  "read_comment py l ts = Inr (l', rest') \<Longrightarrow>
     read_comment py l (ts @ extra) = Inr (l', rest' @ extra)"
proof (induction py ts and py l ts and py l ts arbitrary: v rest and l' rest' and l' rest'
    rule: read_from_tokens_read_list_read_comment.induct)
  case (1 py)
  then show ?case by simp
next
  case (2 py token tokens)
  show ?case
  proof (cases "is_quoted token")
    case True
    with "2.prems" show ?thesis by auto
  next
    case nq: False
    show ?thesis
    proof (cases "token = [40]")
      case True
      with nq "2.prems" obtain l where l: "read_list py [] tokens = Inr (l, rest)" "v = VList l"
        by (auto split: sum.splits prod.splits)
      from "2.IH"(1) [OF nq True l(1)] nq True l(2) show ?thesis by simp
    next
      case np: False
      show ?thesis
      proof (cases "token = [59]")
        case True
        with nq np "2.prems" obtain l string where
          l: "read_comment py [VStr token] tokens = Inr (l, rest)"
             "str_join [32] l = Inr string"
             "v = VList [VStr (ascii ''quote''), VStr (l_restore string)]"
          by (auto split: sum.splits prod.splits)
        from "2.IH"(2) [OF nq np True l(1)] nq np True l(2,3) show ?thesis by simp
      next
        case False
        with nq np "2.prems" show ?thesis by (auto split: if_splits)
      qed
    qed
  qed
next
  case (3 py l)
  then show ?case by simp
next
  case (4 py l t ts)
  show ?case
  proof (cases "t = [41]")
    case True
    with "4.prems" show ?thesis by simp
  next
    case False
    with "4.prems" obtain v r where
      a: "read_from_tokens py (t # ts) = Inr (v, r)" and
      b: "read_list py (if v \<noteq> VStr [] then l @ [v] else l) r = Inr (l', rest')"
      by (auto split: sum.splits prod.splits)
    from "4.IH"(1) [OF False a] have a': "read_from_tokens py ((t # ts) @ extra) = Inr (v, r @ extra)" .
    from "4.IH"(2) [OF False a refl b]
    have b': "read_list py (if v \<noteq> VStr [] then l @ [v] else l) (r @ extra) = Inr (l', rest' @ extra)" .
    from False a' b' show ?thesis by simp
  qed
next
  case (5 py l)
  then show ?case by simp
next
  case (6 py l t ts)
  show ?case
  proof (cases "t = [10]")
    case True
    with "6.prems" show ?thesis by simp
  next
    case False
    with "6.prems" obtain v r where
      a: "read_from_tokens py (t # ts) = Inr (v, r)" and
      b: "read_comment py (l @ [v]) r = Inr (l', rest')"
      by (auto split: sum.splits prod.splits)
    from "6.IH"(1) [OF False a] have a': "read_from_tokens py ((t # ts) @ extra) = Inr (v, r @ extra)" .
    from "6.IH"(2) [OF False a refl b]
    have b': "read_comment py (l @ [v]) (r @ extra) = Inr (l', rest' @ extra)" .
    from False a' b' show ?thesis by simp
  qed
qed

lemma scan_append_paren:
  "length p = 2 \<Longrightarrow> 41 \<notin> set p \<Longrightarrow>
     str_replace_scan p r (s @ [41]) = str_replace_scan p r s @ [41]"
proof (induction p r s rule: str_replace_scan.induct)
  case (1 old new)
  then show ?case by (cases old) (auto)
next
  case (2 old new c cs)
  from "2.prems" obtain a b where old: "old = [a, b]" "a \<noteq> 41" "b \<noteq> 41"
    by (cases old; cases "tl old") auto
  show ?case
  proof (cases cs)
    case Nil
    with old show ?thesis by simp
  next
    case (Cons d ds)
    show ?thesis
    proof (cases "c = a \<and> d = b")
      case True
      with old Cons "2.IH"(1) "2.prems" show ?thesis by simp
    next
      case False
      with old Cons "2.IH"(2) "2.prems" show ?thesis by auto
    qed
  qed
qed

lemma l_escape_append_paren: "l_escape (s @ [41]) = l_escape s @ [41]"
  by (simp add: l_escape_def escapes_def str_replace_def scan_append_paren)

lemma findall_append_paren: "findall_tokens (e @ [41]) = findall_tokens e @ [[41]]"
proof (induction e rule: findall_tokens.induct)
  case 1
  then show ?case by simp
next
  case (2 c cs)
  have nb: "\<not> bare 41" by (simp add: bare_def)
  have tw: "takeWhile bare (cs @ [41]) = takeWhile bare cs"
    by (induction cs) (auto simp add: bare_def)
  have dw: "dropWhile bare (cs @ [41]) = dropWhile bare cs @ [41]"
    by (induction cs) (auto simp add: bare_def)
  have tq: "takeWhile (\<lambda>d. d \<noteq> 34) (cs @ [41]) = takeWhile (\<lambda>d. d \<noteq> 34) cs"
    if "34 \<in> set cs" using that by (induction cs) auto
  have dq: "tl (dropWhile (\<lambda>d. d \<noteq> 34) (cs @ [41])) = tl (dropWhile (\<lambda>d. d \<noteq> 34) cs) @ [41]"
    if "34 \<in> set cs" using that by (induction cs) auto
  show ?case
  proof (cases "c = 34")
    case True
    show ?thesis
    proof (cases "34 \<in> set cs")
      case m: True
      with True "2.IH"(1) show ?thesis by (simp add: tq dq)
    next
      case False
      with True "2.IH"(2) show ?thesis by simp
    qed
  next
    case nq: False
    show ?thesis
    proof (cases "c = 40 \<or> c = 41")
      case True
      with nq "2.IH"(3) show ?thesis by auto
    next
      case np: False
      show ?thesis
      proof (cases "c = 32")
        case True
        with nq np "2.IH"(4) show ?thesis by auto
      next
        case False
        with nq np "2.IH"(5) show ?thesis by (simp add: tw dw)
      qed
    qed
  qed
qed

lemma tokenize_append_parens:
  "tokenize (s @ replicate n 41) = tokenize s @ replicate n [41]"
proof (induction n)
  case 0
  then show ?case by simp
next
  case (Suc n)
  have "tokenize (s @ replicate (Suc n) 41) = tokenize ((s @ replicate n 41) @ [41])"
    by (simp add: replicate_append_same)
  also have "\<dots> = tokenize (s @ replicate n 41) @ [[41]]"
    unfolding tokenize_def by (simp only: l_escape_append_paren findall_append_paren)
  finally show ?case using Suc by (simp add: replicate_append_same)
qed

lemma tokenize_paren_first: "tokenize (41 # s) = [41] # tokenize s"
  by (simp add: tokenize_def l_escape_def escapes_def str_replace_def)

text \<open>
  Claim C1, as amended. \<open>parse\<close> reads one expression off the front of the tokens and
  does not look at what follows it: a text that parses still parses, to the same
  expression, with any number of closing parentheses after it. A closing parenthesis
  where an expression is expected (the first token) raises \<open>CustomCommandSyntaxError\<close>
  with the message \<open>unexpected )\<close>, and a text with no token raises it with the message
  \<open>unexpected EOF while reading\<close>.
\<close>

theorem parse_reads_one_expression:
  "(parse py s = Inr v \<longrightarrow> parse py (s @ replicate n 41) = Inr v) \<and>
   parse py (41 # s) = Inl (Exc CustomCommandSyntaxError (ascii ''unexpected )'')) \<and>
   (tokenize s = [] \<longrightarrow>
      parse py s = Inl (Exc CustomCommandSyntaxError (ascii ''unexpected EOF while reading'')))"
proof (intro conjI impI)
  assume "parse py s = Inr v"
  then obtain rest where "read_from_tokens py (tokenize s) = Inr (v, rest)"
    by (auto simp add: parse_def split: sum.splits prod.splits)
  from read_append(1) [OF this, of "replicate n [41]"]
  show "parse py (s @ replicate n 41) = Inr v"
    by (simp add: parse_def tokenize_append_parens)
next
  show "parse py (41 # s) = Inl (Exc CustomCommandSyntaxError (ascii ''unexpected )''))"
    by (simp add: parse_def tokenize_paren_first is_quoted_def)
next
  assume "tokenize s = []"
  then show "parse py s = Inl (Exc CustomCommandSyntaxError (ascii ''unexpected EOF while reading''))"
    by (simp add: parse_def)
qed

lemma parse_sum: "parse py0 (ascii ''(+ 1 2)'') = Inr (VList [VStr [43], VInt 1, VInt 2])"
  by (simp add: parse_def tokenize_def l_escape_unfold ascii_def bare_def is_quoted_def
      atom_def strip_def py0_def ascii_int_def ascii_digit_def ascii_bool_def ascii_lower_def
      ascii_isspace_def nat_of_digits_def)

text \<open>The theorem at the text \<open>(+ 1 2)\<close> with two more closers, and at the text of one space.\<close>

theorem parse_reads_one_expression_witness:
  "parse py0 (ascii ''(+ 1 2)'' @ replicate 2 41) = Inr (VList [VStr [43], VInt 1, VInt 2]) \<and>
   parse py0 (ascii '' '') = Inl (Exc CustomCommandSyntaxError (ascii ''unexpected EOF while reading''))"
proof -
  have "tokenize (ascii '' '') = []"
    by (simp add: tokenize_def l_escape_unfold ascii_def)
  with parse_sum parse_reads_one_expression [of py0 "ascii ''(+ 1 2)''" "VList [VStr [43], VInt 1, VInt 2]" 2]
    parse_reads_one_expression [of py0 "ascii '' ''"]
  show ?thesis by simp
qed

text \<open>
  Claim C1 as stated fails at the text \<open>(+ 1 2))\<close>: one closer too many, and \<open>parse\<close>
  returns the expression and raises nothing.
\<close>

theorem parse_surplus_closer_counterexample:
  "parse py0 (ascii ''(+ 1 2))'') = Inr (VList [VStr [43], VInt 1, VInt 2])"
  by (simp add: parse_def tokenize_def l_escape_unfold ascii_def bare_def is_quoted_def
      atom_def strip_def py0_def ascii_int_def ascii_digit_def ascii_bool_def ascii_lower_def
      ascii_isspace_def nat_of_digits_def)

text \<open>
  With one closer too few, the loop of the \<open>(\<close> branch reads \<open>tokens[0]\<close> of the empty
  list before \<open>read_from_tokens\<close> can report the end of the input.
\<close>

lemma parse_missing_closer:
  "parse py0 (ascii ''(+ 1 2'') = Inl (Exc IndexError (ascii ''list index out of range''))"
  by (simp add: parse_def tokenize_def l_escape_unfold ascii_def bare_def is_quoted_def
      atom_def strip_def py0_def ascii_int_def ascii_digit_def ascii_bool_def ascii_lower_def
      ascii_isspace_def nat_of_digits_def)

section \<open>Properties of the evaluator\<close>

subsection \<open>Evaluating by rewriting\<close>

lemmas k_defs = k_args_def k_quote_def k_if_def k_set_def k_define_def k_def_def k_lambda_def
  k_unquote_def k_checkexpect_def k_checkwithin_def k_member_def k_struct_def k_access_def
  k_while_def k_print_def k_try_def

lemma eval_form_try:
  "eval_form k py ev (VStr k_try) (body # args) env st =
     (case ev body env st of
        None \<Rightarrow> None
      | Some (Ret v, st') \<Rightarrow> Some (Ret v, st')
      | Some (Raise e, st') \<Rightarrow>
          (case args of [] \<Rightarrow> Some (Ret (VExc e), st') | alt # others \<Rightarrow> ev alt env st')
      | Some (Unmodelled, st') \<Rightarrow> Some (Unmodelled, st'))"
  by (simp add: eval_form_def k_defs ascii_def ret_def lift_def
      split: option.split prod.split outcome.split list.split)

lemma eval_step_list:
  "entry_check env st = (False, st1) \<Longrightarrow>
     eval_step k py ev (VList (h # rest)) env st =
       (case eval_form k py ev h rest env st1 of
          None \<Rightarrow> None
        | Some (Raise e, st2) \<Rightarrow> Some (Raise (wrap py (VList (h # rest)) e), st2)
        | Some r \<Rightarrow> Some r)"
  by (simp add: eval_step_def dispatch_def raise_def
      split: option.split prod.split outcome.split)


lemmas eval_defs = eval_step_def entry_check_def dispatch_def eval_form_def k_defs ascii_def
  bind_def ret_def raise_def lift_def eval_symbol_def lookup_def apply_proc_def of_sum_def
  wrap_def shorten_def head_str_def to_str_def index_value_def time_now_def timeout_error_def
  set_item_def env_set_def form_set_def new_env_def py_iter_def env_truthy_def global_env_def
  py_truth_def quoted_def find.simps lisp_eval.simps(2) Let_def

lemmas state_defs = start_state_def root_env_def blank_env_def


subsection \<open>Environments\<close>

lemma map_of_dict_set:
  "map_of (dict_set k v d) k' = (if k' = k then Some v else map_of d k')"
  by (induction d) auto

lemma dict_set_nonempty: "dict_set k v d \<noteq> []"
  by (cases d) (auto split: if_splits)

lemma find_agree:
  "(\<And>b. b \<le> a \<Longrightarrow> heap st' b = heap st b) \<Longrightarrow> find st' a var = find st a var"
proof (induction st a var rule: find.induct)
  case (1 st a var)
  have here: "heap st' a = heap st a" using "1.prems" by simp
  have below: "heap st' b = heap st b" if "b < a" for b using "1.prems" that by simp
  have rec: "find st' b var = find st b var"
    if "map_of (vars (heap st a)) var = None" "outer (heap st a) = Some b"
       "b < a" "env_truthy (heap st b)" for b
    using "1.IH" [of b] that "1.prems" by simp
  show ?case
    using here below rec
    by (auto simp add: find.simps [of st a var] find.simps [of st' a var] split: option.split)
qed

lemma find_here: "map_of (vars (heap st a)) var = Some v \<Longrightarrow> find st a var = Inr a"
  by (simp add: find.simps [of st a var])

lemma find_step:
  "map_of (vars (heap st a)) var = None \<Longrightarrow> outer (heap st a) = Some b \<Longrightarrow> b < a \<Longrightarrow>
     env_truthy (heap st b) \<Longrightarrow> find st a var = find st b var"
  by (simp add: find.simps [of st a var])

lemma find_root_fail:
  "map_of (vars (heap st a)) var = None \<Longrightarrow> outer (heap st a) = None \<Longrightarrow>
     find st a var = Inl (Exc CustomCommandSyntaxError (ascii ''undefined var '' @ var))"
  by (simp add: find.simps [of st a var])

text \<open>Binding a name in the environment at hand leaves the lookup of every other name as it was.\<close>

lemma find_after_bind:
  assumes "var \<noteq> k"
  shows "find (st\<lparr>heap := (heap st)(a := (heap st a)\<lparr>vars := dict_set k v (vars (heap st a))\<rparr>)\<rparr>) a var
           = find st a var"
proof -
  let ?st' = "st\<lparr>heap := (heap st)(a := (heap st a)\<lparr>vars := dict_set k v (vars (heap st a))\<rparr>)\<rparr>"
  have below: "find ?st' b var = find st b var" if "b < a" for b
    by (rule find_agree) (use that in auto)
  show ?thesis
  proof (cases "outer (heap st a)")
    case None
    with assms show ?thesis
      by (simp add: find.simps [of st a var] find.simps [of ?st' a var] map_of_dict_set)
  next
    case (Some b)
    show ?thesis
    proof (cases "b < a")
      case True
      with assms Some below [OF True] show ?thesis
        by (simp add: find.simps [of st a var] find.simps [of ?st' a var] map_of_dict_set)
    next
      case False
      with assms Some show ?thesis
        by (simp add: find.simps [of st a var] find.simps [of ?st' a var] map_of_dict_set)
    qed
  qed
qed




lemma find_rebind_other: "var \<noteq> k \<Longrightarrow> find (rebind a k v st) a var = find st a var"
  unfolding rebind_def by (rule find_after_bind)




lemma budget_rebind [simp]: "max_runtime (heap (rebind a k v st) b) = max_runtime (heap st b)"
  by (simp add: rebind_def)

lemma entry_unlimited: "max_runtime (heap st env) = 0 \<Longrightarrow> entry_check env st = (False, st)"
  by (simp add: entry_check_def)

lemma split_on_plain: "sep \<notin> set s \<Longrightarrow> split_on sep s = [s]"
  by (induction s) auto


lemma eval_name:
  assumes "entry_check env st = (False, st1)" and "58 \<notin> set nm"
  shows "lisp_eval (Suc k) py (VStr nm) env st =
           (case lookup st1 env nm of
              Inl e \<Rightarrow> Some (Raise (wrap py (VStr nm) e), st1)
            | Inr v \<Rightarrow> Some (Ret v, st1))"
  using assms
  by (simp add: lisp_eval.simps(2) eval_step_def dispatch_def eval_symbol_def split_on_plain
      bind_def ret_def raise_def lift_def split: sum.split)





lemma special_heads:
  "h \<noteq> VStr k_args \<Longrightarrow> h \<noteq> VStr k_quote \<Longrightarrow> h \<noteq> VStr k_access \<Longrightarrow> h \<noteq> VStr k_if \<Longrightarrow>
   h \<noteq> VStr k_define \<Longrightarrow> h \<noteq> VStr k_def \<Longrightarrow> h \<noteq> VStr k_set \<Longrightarrow> h \<noteq> VStr k_lambda \<Longrightarrow>
   h \<noteq> VStr k_checkexpect \<Longrightarrow> h \<noteq> VStr k_checkwithin \<Longrightarrow> h \<noteq> VStr k_member \<Longrightarrow>
   h \<noteq> VStr k_struct \<Longrightarrow> h \<noteq> VStr k_while \<Longrightarrow> h \<noteq> VStr k_print \<Longrightarrow> h \<noteq> VStr k_try \<Longrightarrow>
   h \<noteq> VStr k_unquote \<Longrightarrow>
   eval_form k py ev h rest env st =
     bind (ev h env st)
       (\<lambda>proc st'.
          if (case h of VStr s \<Rightarrow> take 5 s = ascii ''make-'' | _ \<Rightarrow> False)
          then form_make py ev proc rest env st'
          else bind (eval_seq (\<lambda>arg. ev arg env) rest st') (apply_proc py ev proc))"
  by (simp add: eval_form_def)

lemma eval_form_plus:
  "eval_form k py ev (VStr [43]) rest env st =
     bind (ev (VStr [43]) env st)
       (\<lambda>proc st'. bind (eval_seq (\<lambda>arg. ev arg env) rest st') (apply_proc py ev proc))"
  by (subst special_heads) (simp_all add: k_defs ascii_def)


subsection \<open>try\<close>

text \<open>
  Claim C4. A \<open>try\<close> form whose body raises: with no alternative the form returns the
  exception as a value; with an alternative the alternative is evaluated, in the state the
  body left, and its value is the value of the form. The form is entered with the budget
  test passed (\<open>entry_check\<close> gives \<open>False\<close>), as it must be for the body to be evaluated.
\<close>

theorem try_catches:
  assumes entry: "entry_check env st = (False, st1)"
    and fails: "lisp_eval k py body env st1 = Some (Raise e, st2)"
  shows "lisp_eval (Suc k) py (VList [VStr k_try, body]) env st = Some (Ret (VExc e), st2) \<and>
         (lisp_eval k py alt env st2 = Some (Ret v, st3) \<longrightarrow>
            lisp_eval (Suc k) py (VList (VStr k_try # body # alt # others)) env st = Some (Ret v, st3))"
  using assms by (simp add: lisp_eval.simps(2) eval_step_list eval_form_try)

lemma foo_fails:
  "lisp_eval (Suc (Suc 0)) py0 (VList [VStr (ascii ''foo''), VInt 1]) 0 (start_state 0 (\<lambda>k. 0)) =
     Some (Raise (Exc CustomCommandSyntaxError (ascii ''(foo): (f): undefined var foo'')),
           start_state 0 (\<lambda>k. 0))"
  by (simp add: eval_defs state_defs)

lemma five: "lisp_eval (Suc (Suc 0)) py0 (VInt 5) 0 (start_state 0 (\<lambda>k. 0)) =
     Some (Ret (VInt 5), start_state 0 (\<lambda>k. 0))"
  by (simp add: eval_defs state_defs)

text \<open>
  The theorem at the body \<open>(foo 1)\<close>, where \<open>foo\<close> is not bound, without and with the
  alternative \<open>5\<close>.
\<close>

theorem try_catches_witness:
  "lisp_eval (Suc (Suc (Suc 0))) py0 (VList [VStr k_try, VList [VStr (ascii ''foo''), VInt 1]]) 0
       (start_state 0 (\<lambda>k. 0)) =
     Some (Ret (VExc (Exc CustomCommandSyntaxError (ascii ''(foo): (f): undefined var foo''))),
           start_state 0 (\<lambda>k. 0)) \<and>
   lisp_eval (Suc (Suc (Suc 0))) py0
       (VList [VStr k_try, VList [VStr (ascii ''foo''), VInt 1], VInt 5]) 0 (start_state 0 (\<lambda>k. 0)) =
     Some (Ret (VInt 5), start_state 0 (\<lambda>k. 0))"
proof -
  have entry: "entry_check 0 (start_state 0 (\<lambda>k. 0)) = (False, start_state 0 (\<lambda>k. 0))"
    by (simp add: entry_check_def state_defs global_env_def)
  from try_catches [OF entry foo_fails, of "VInt 5" "VInt 5" "start_state 0 (\<lambda>k. 0)" "[]"] five
  show ?thesis by simp
qed


subsection \<open>define and assignment\<close>




subsection \<open>Procedures\<close>

lemma env_update_names:
  "env_update (zip (map VStr names) args) e =
     Inr (e\<lparr>vars := foldl (\<lambda>d (k, v). dict_set k v d) (vars e) (zip names args)\<rparr>)"
proof (induction names arbitrary: args e)
  case Nil
  then show ?case by simp
next
  case (Cons n names)
  show ?case
  proof (cases args)
    case Nil
    then show ?thesis by simp
  next
    case (Cons a as)
    with Cons.IH show ?thesis by (simp add: env_set_def)
  qed
qed

lemma map_of_foldl_dict_set:
  "map_of (foldl (\<lambda>d (k, v). dict_set k v d) d kvs) y =
     (case map_of (rev kvs) y of None \<Rightarrow> map_of d y | Some v \<Rightarrow> Some v)"
proof (induction kvs arbitrary: d)
  case Nil
  then show ?case by simp
next
  case (Cons kv kvs)
  obtain k v where kv: "kv = (k, v)" by (cases kv)
  show ?case
    by (simp add: kv Cons.IH map_of_dict_set map_add_def split: option.split)
qed

lemma map_of_rev_zip_nth:
  assumes "distinct names" and "i < length names" and "i < length args"
  shows "map_of (rev (zip names args)) (names ! i) = Some (args ! i)"
proof -
  have d: "distinct (map fst (rev (zip names args)))"
    using assms(1) by (simp add: rev_map [symmetric] map_fst_zip_take)
  have "(names ! i, args ! i) \<in> set (rev (zip names args))"
    using assms(2,3) by (auto simp add: in_set_zip)
  with d show ?thesis by (rule_tac map_of_is_SomeI)
qed

lemma map_of_rev_zip_absent:
  "y \<notin> set names \<Longrightarrow> map_of (rev (zip names args)) y = None"
  by (auto simp add: map_of_eq_None_iff dest: set_zip_leftD)

lemma new_env_names:
  "new_env py (VList (map VStr names)) args (Some D) st = Inr (next_env st, frame names args D st)"
  by (simp add: new_env_def py_iter_def env_update_names time_now_def frame_def)

lemma apply_procedure:
  "apply_proc py ev (VProc (VList (map VStr names)) body D) args st =
     ev body (next_env st) (frame names args D st)"
  by (simp add: apply_proc_def new_env_names)

lemma frame_heap_other: "b \<noteq> next_env st \<Longrightarrow> heap (frame names args D st) b = heap st b"
  by (simp add: frame_def)

lemma frame_param:
  assumes "distinct names" and "i < length names" and "i < length args"
  shows "lookup (frame names args D st) (next_env st) (names ! i) = Inr (args ! i)"
proof -
  have "map_of (vars (heap (frame names args D st) (next_env st))) (names ! i) = Some (args ! i)"
    using assms by (simp add: frame_def map_of_foldl_dict_set map_of_rev_zip_nth)
  then show ?thesis by (simp add: lookup_def find_here)
qed

lemma frame_free:
  assumes y: "y \<notin> set names" and bound: "map_of (vars (heap st D)) y = Some v"
    and older: "D < next_env st"
  shows "lookup (frame names args D st) (next_env st) y = Inr v"
proof -
  let ?st = "frame names args D st"
  have none: "map_of (vars (heap ?st (next_env st))) y = None"
    using y by (simp add: frame_def map_of_foldl_dict_set map_of_rev_zip_absent)
  have out: "outer (heap ?st (next_env st)) = Some D" by (simp add: frame_def)
  have same: "heap ?st D = heap st D" using older by (simp add: frame_heap_other)
  from bound have "vars (heap st D) \<noteq> []" by auto
  then have truthy: "env_truthy (heap ?st D)" by (simp add: same env_truthy_def)
  have "find ?st (next_env st) y = find ?st D y"
    using none out older truthy by (rule find_step)
  also have "\<dots> = Inr D" using bound by (simp add: find_here same)
  finally show ?thesis using bound by (simp add: lookup_def same)
qed

lemma eval_form_lambda:
  "eval_form k py ev (VStr k_lambda) [parms, body] env st = Some (Ret (VProc parms body env), st)"
  by (simp add: eval_form_def k_defs ascii_def ret_def)

lemma eval_lambda:
  assumes "entry_check env st = (False, st1)"
  shows "lisp_eval (Suc k) py (VList [VStr k_lambda, parms, body]) env st =
           Some (Ret (VProc parms body env), st1)"
  using assms by (simp add: lisp_eval.simps(2) eval_step_list eval_form_lambda)

lemma plus_call2:
  assumes budget: "max_runtime (heap st env) = 0"
    and plus: "lookup st env [43] = Inr (VBuiltin op)"
    and x: "lookup st env n1 = Inr (VInt i)" and n1: "58 \<notin> set n1"
    and y: "lookup st env n2 = Inr (VInt j)" and n2: "58 \<notin> set n2"
    and sum: "py_builtin py op [VInt i, VInt j] = Inr (VInt r)"
  shows "lisp_eval (Suc (Suc k)) py (VList [VStr [43], VStr n1, VStr n2]) env st = Some (Ret (VInt r), st)"
proof -
  have entry: "entry_check env st = (False, st)" using budget by (rule entry_unlimited)
  have p: "lisp_eval (Suc k) py (VStr [43]) env st = Some (Ret (VBuiltin op), st)"
    using eval_name [OF entry, of "[43]" k py] plus by simp
  have a: "lisp_eval (Suc k) py (VStr n1) env st = Some (Ret (VInt i), st)"
    using eval_name [OF entry n1, of k py] x by simp
  have b: "lisp_eval (Suc k) py (VStr n2) env st = Some (Ret (VInt j), st)"
    using eval_name [OF entry n2, of k py] y by simp
  show ?thesis
    by (simp add: lisp_eval.simps(2) [of "Suc k"] eval_step_list [OF entry] eval_form_plus
        p a b bind_def ret_def apply_proc_def lift_def of_sum_def sum)
qed

text \<open>
  A lambda form gives a \<open>Procedure\<close> that holds the environment at hand. Calling a
  procedure evaluates its body in a new environment whose outer link is the environment
  the procedure holds, with the parameters bound to the arguments by position; a name
  that is not a parameter and is bound in that environment is found there, whatever the
  environment the call is made from.
\<close>

lemma procedure_call:
  "(max_runtime (heap st env) = 0 \<longrightarrow>
      lisp_eval (Suc k) py
          (VList [VStr k_lambda, VList [VStr (ascii ''a''), VStr (ascii ''b'')],
                  VList [VStr [43], VStr (ascii ''a''), VStr (ascii ''b'')]]) env st =
        Some (Ret (VProc (VList [VStr (ascii ''a''), VStr (ascii ''b'')])
                         (VList [VStr [43], VStr (ascii ''a''), VStr (ascii ''b'')]) env), st)) \<and>
   (map_of (vars (heap st env)) [43] = Some (VBuiltin op) \<and>
    py_builtin py op [VInt 3, VInt 4] = Inr (VInt 7) \<and> env < next_env st \<longrightarrow>
      apply_proc py (lisp_eval (Suc (Suc k)) py)
          (VProc (VList [VStr (ascii ''a''), VStr (ascii ''b'')])
                 (VList [VStr [43], VStr (ascii ''a''), VStr (ascii ''b'')]) env)
          [VInt 3, VInt 4] st =
        Some (Ret (VInt 7), frame [ascii ''a'', ascii ''b''] [VInt 3, VInt 4] env st)) \<and>
   apply_proc py ev (VProc (VList (map VStr names)) body D) args st =
     ev body (next_env st) (frame names args D st) \<and>
   outer (heap (frame names args D st) (next_env st)) = Some D \<and>
   (distinct names \<and> i < length names \<and> i < length args \<longrightarrow>
      lookup (frame names args D st) (next_env st) (names ! i) = Inr (args ! i)) \<and>
   (y \<notin> set names \<and> map_of (vars (heap st D)) y = Some v \<and> D < next_env st \<longrightarrow>
      lookup (frame names args D st) (next_env st) y = Inr v)"
proof (intro conjI impI)
  assume "max_runtime (heap st env) = 0"
  then show "lisp_eval (Suc k) py
          (VList [VStr k_lambda, VList [VStr (ascii ''a''), VStr (ascii ''b'')],
                  VList [VStr [43], VStr (ascii ''a''), VStr (ascii ''b'')]]) env st =
        Some (Ret (VProc (VList [VStr (ascii ''a''), VStr (ascii ''b'')])
                         (VList [VStr [43], VStr (ascii ''a''), VStr (ascii ''b'')]) env), st)"
    by (simp add: eval_lambda entry_unlimited)
next
  assume h: "map_of (vars (heap st env)) [43] = Some (VBuiltin op) \<and>
    py_builtin py op [VInt 3, VInt 4] = Inr (VInt 7) \<and> env < next_env st"
  let ?names = "[ascii ''a'', ascii ''b'']"
  let ?args = "[VInt 3, VInt 4]"
  let ?st = "frame ?names ?args env st"
  have budget: "max_runtime (heap ?st (next_env st)) = 0" by (simp add: frame_def)
  have plus: "lookup ?st (next_env st) [43] = Inr (VBuiltin op)"
    by (rule frame_free) (use h in \<open>simp_all add: ascii_def\<close>)
  have d: "distinct ?names" by (simp add: ascii_def)
  have a: "lookup ?st (next_env st) (ascii ''a'') = Inr (VInt 3)"
    using frame_param [OF d, of 0 ?args env st] by simp
  have b: "lookup ?st (next_env st) (ascii ''b'') = Inr (VInt 4)"
    using frame_param [OF d, of 1 ?args env st] by simp
  have "lisp_eval (Suc (Suc k)) py (VList [VStr [43], VStr (ascii ''a''), VStr (ascii ''b'')])
          (next_env st) ?st = Some (Ret (VInt 7), ?st)"
    by (rule plus_call2 [OF budget plus a _ b]) (use h in \<open>simp_all add: ascii_def\<close>)
  then show "apply_proc py (lisp_eval (Suc (Suc k)) py)
          (VProc (VList [VStr (ascii ''a''), VStr (ascii ''b'')])
                 (VList [VStr [43], VStr (ascii ''a''), VStr (ascii ''b'')]) env)
          [VInt 3, VInt 4] st = Some (Ret (VInt 7), ?st)"
    using apply_procedure [of py "lisp_eval (Suc (Suc k)) py" ?names _ env ?args st]
    by simp
next
  show "apply_proc py ev (VProc (VList (map VStr names)) body D) args st =
     ev body (next_env st) (frame names args D st)"
    by (rule apply_procedure)
next
  show "outer (heap (frame names args D st) (next_env st)) = Some D"
    by (simp add: frame_def)
next
  assume "distinct names \<and> i < length names \<and> i < length args"
  then show "lookup (frame names args D st) (next_env st) (names ! i) = Inr (args ! i)"
    by (simp add: frame_param)
next
  assume "y \<notin> set names \<and> map_of (vars (heap st D)) y = Some v \<and> D < next_env st"
  then show "lookup (frame names args D st) (next_env st) y = Inr v"
    by (simp add: frame_free)
qed

subsection \<open>Structs\<close>










lemma declared_budget [simp]:
  "max_runtime (heap (declared nm flds env st) b) = max_runtime (heap st b)"
  by (simp add: declared_def)







lemma wrap_short_name:
  "c # cs = nm \<Longrightarrow> length (exc_str e) \<le> 1500 \<Longrightarrow>
     wrap py (VStr nm) e = Exc CustomCommandSyntaxError (ascii ''('' @ [c] @ ascii ''): '' @ exc_str e)"
  by (auto simp add: wrap_def shorten_def head_str_def)

lemma wrap_short_form:
  "length (exc_str e) \<le> 1500 \<Longrightarrow>
     wrap py (VList (VStr h # rest)) e =
       Exc CustomCommandSyntaxError (ascii ''('' @ h @ ascii ''): '' @ exc_str e)"
  by (simp add: wrap_def shorten_def head_str_def to_str_def)




subsection \<open>The handler\<close>










subsection \<open>The budget\<close>


lemma spent_reads [simp]: "spent env (st\<lparr>reads := r\<rparr>) i = spent env st i"
  by (simp add: spent_def)











subsection \<open>A closure made in an empty environment\<close>

text \<open>
  Claim C3 at a failing input. \<open>Env.find\<close> tests \<open>elif self.outer\<close>, the truth value of a
  dictionary, so an outer environment with no binding counts as absent. The procedure
  \<open>g\<close> is made inside the call of \<open>f\<close>, which has no parameter; the body of \<open>g\<close> cannot
  reach \<open>+\<close> in the root through the empty environment of that call, and \<open>(g 2)\<close> raises.
  With one parameter for \<open>f\<close> the same program returns 3.
\<close>

theorem closure_in_empty_frame:
  "parse py0 (ascii ''(define f (lambda () (lambda (a) (+ a 1))))'') =
     Inr (VList [VStr k_define, VStr (ascii ''f''),
            VList [VStr k_lambda, VList [],
              VList [VStr k_lambda, VList [VStr (ascii ''a'')],
                VList [VStr [43], VStr (ascii ''a''), VInt 1]]]]) \<and>
   map_option fst (run_forms (Suc (Suc (Suc (Suc (Suc 0))))) py0
     [VList [VStr k_define, VStr (ascii ''f''),
        VList [VStr k_lambda, VList [],
          VList [VStr k_lambda, VList [VStr (ascii ''a'')],
            VList [VStr [43], VStr (ascii ''a''), VInt 1]]]],
      VList [VStr k_define, VStr (ascii ''g''), VList [VStr (ascii ''f'')]],
      VList [VStr (ascii ''g''), VInt 2]] global_env (start_state 0 (\<lambda>k. 0))) =
     Some (Raise (Exc CustomCommandSyntaxError (ascii ''(g): (+): (+): undefined var +''))) \<and>
   map_option fst (run_forms (Suc (Suc (Suc (Suc (Suc 0))))) py0
     [VList [VStr k_define, VStr (ascii ''f''),
        VList [VStr k_lambda, VList [VStr (ascii ''z'')],
          VList [VStr k_lambda, VList [VStr (ascii ''a'')],
            VList [VStr [43], VStr (ascii ''a''), VInt 1]]]],
      VList [VStr k_define, VStr (ascii ''g''), VList [VStr (ascii ''f''), VInt 0]],
      VList [VStr (ascii ''g''), VInt 2]] global_env (start_state 0 (\<lambda>k. 0))) =
     Some (Ret (VInt 3))"
proof (intro conjI)
  show "parse py0 (ascii ''(define f (lambda () (lambda (a) (+ a 1))))'') =
     Inr (VList [VStr k_define, VStr (ascii ''f''),
            VList [VStr k_lambda, VList [],
              VList [VStr k_lambda, VList [VStr (ascii ''a'')],
                VList [VStr [43], VStr (ascii ''a''), VInt 1]]]])"
    by (simp add: parse_def tokenize_def l_escape_unfold ascii_def bare_def is_quoted_def
      atom_def strip_def py0_def ascii_int_def ascii_digit_def ascii_bool_def ascii_lower_def
      ascii_isspace_def nat_of_digits_def k_defs)
next
  show "map_option fst (run_forms (Suc (Suc (Suc (Suc (Suc 0))))) py0
     [VList [VStr k_define, VStr (ascii ''f''),
        VList [VStr k_lambda, VList [],
          VList [VStr k_lambda, VList [VStr (ascii ''a'')],
            VList [VStr [43], VStr (ascii ''a''), VInt 1]]]],
      VList [VStr k_define, VStr (ascii ''g''), VList [VStr (ascii ''f'')]],
      VList [VStr (ascii ''g''), VInt 2]] global_env (start_state 0 (\<lambda>k. 0))) =
     Some (Raise (Exc CustomCommandSyntaxError (ascii ''(g): (+): (+): undefined var +'')))"
    by (simp add: eval_defs state_defs py0_def)
next
  show "map_option fst (run_forms (Suc (Suc (Suc (Suc (Suc 0))))) py0
     [VList [VStr k_define, VStr (ascii ''f''),
        VList [VStr k_lambda, VList [VStr (ascii ''z'')],
          VList [VStr k_lambda, VList [VStr (ascii ''a'')],
            VList [VStr [43], VStr (ascii ''a''), VInt 1]]]],
      VList [VStr k_define, VStr (ascii ''g''), VList [VStr (ascii ''f''), VInt 0]],
      VList [VStr (ascii ''g''), VInt 2]] global_env (start_state 0 (\<lambda>k. 0))) =
     Some (Ret (VInt 3))"
    by (simp add: eval_defs state_defs py0_def)
qed

end
